theory Spec2Isabelle
  imports Complex_Main "HOL-Library.Word"
begin

section \<open>JavaScript values shared by the three modules\<close>

text \<open>
  A JavaScript string is a sequence of 16-bit code units; \<open>length\<close> counts code units,
  as \<^verbatim>\<open>String.prototype.length\<close> does. String literals of the source are written
  with \<open>js\<close>.
\<close>

type_synonym code_unit = "16 word"
type_synonym jsstring = "code_unit list"

definition js :: "string \<Rightarrow> jsstring" where
  "js s = map (\<lambda>c. of_nat (of_char c)) s"

text \<open>
  A value that is thrown or handed back in the \<^verbatim>\<open>error\<close> field of a store reply.
  \<open>is_Error\<close> records whether \<^verbatim>\<open>instanceof Error\<close> holds for it; \<open>err_code\<close> is
  the SQLSTATE of a store error, when there is one.
\<close>

record js_error =
  is_Error :: bool
  err_message :: jsstring
  err_code :: "jsstring option"

definition new_Error :: "jsstring \<Rightarrow> js_error" where
  "new_Error msg = \<lparr>is_Error = True, err_message = msg, err_code = None\<rparr>"

text \<open>
  The \<^verbatim>\<open>TypeError\<close> raised when a property of \<^verbatim>\<open>null\<close> or \<^verbatim>\<open>undefined\<close> is
  read, with the message V8 (Node.js) gives it: the value that was read from and the
  name of the property.
\<close>

definition typeError :: "string \<Rightarrow> string \<Rightarrow> js_error" where
  "typeError val property =
     new_Error (js ''Cannot read properties of '' @ js val @ js '' (reading ''
                @ [0x0027] @ js property @ [0x0027] @ js '')'')"

text \<open>The reply \<^verbatim>\<open>{ data, error }\<close> of a store call; \<open>None\<close> is \<^verbatim>\<open>null\<close>.\<close>

record 'd query_result =
  data :: "'d option"
  error :: "js_error option"

text \<open>An embedding vector is only passed on to the store, never computed with.\<close>

type_synonym embedding = "real list"

section \<open>Retrieval layer (src/lib/retrieval.ts)\<close>

text \<open>
  One retrieved chunk. \<open>file_id\<close> is present on the rows of the multi-file merge only,
  \<open>shopify_fields\<close> (store id, content type, title, metadata) on the rows of the
  store-scoped retrieval only. \<open>similarity\<close> is a JavaScript number; it is taken to be
  an ordinary (finite, non-NaN) number.
\<close>

record match_row =
  match_id :: jsstring
  chunk :: jsstring
  similarity :: real
  file_id :: "jsstring option"
  shopify_fields :: "(jsstring \<times> jsstring \<times> jsstring \<times> jsstring) option"

text \<open>
  The store's \<^verbatim>\<open>match_documents\<close> procedure is external: it is a parameter, applied to
  the query embedding, the target file and the match count. \<open>Inl\<close> is a call that throws.
\<close>

type_synonym match_documents_rpc =
  "embedding \<Rightarrow> jsstring option \<Rightarrow> nat \<Rightarrow> js_error + match_row list query_result"

definition retrieveRelevantChunks ::
  "match_documents_rpc \<Rightarrow> embedding \<Rightarrow> jsstring option \<Rightarrow> nat \<Rightarrow> js_error + match_row list option" where
  "retrieveRelevantChunks rpc queryEmbedding fileId limit =
     (case rpc queryEmbedding fileId limit of
        Inl e \<Rightarrow> Inl e
      | Inr res \<Rightarrow>
          (case error res of
             Some e \<Rightarrow> Inl e
           | None \<Rightarrow> Inr (data res)))"

text \<open>
  The \<^verbatim>\<open>for (const fileId of fileIds)\<close> loop, with \<open>allChunks\<close> as its accumulator.
  \<^verbatim>\<open>chunks.map\<close> on a \<^verbatim>\<open>null\<close> reply raises a TypeError.
\<close>

fun collectChunks ::
  "match_documents_rpc \<Rightarrow> embedding \<Rightarrow> jsstring list \<Rightarrow> nat \<Rightarrow> match_row list \<Rightarrow> js_error + match_row list" where
  "collectChunks rpc queryEmbedding [] limit allChunks = Inr allChunks"
| "collectChunks rpc queryEmbedding (fileId # rest) limit allChunks =
     (case retrieveRelevantChunks rpc queryEmbedding (Some fileId) limit of
        Inl e \<Rightarrow> Inl e
      | Inr None \<Rightarrow> Inl (typeError ''null'' ''map'')
      | Inr (Some chunks) \<Rightarrow>
          collectChunks rpc queryEmbedding rest limit
            (allChunks @ map (\<lambda>c. c\<lparr>file_id := Some fileId\<rparr>) chunks))"

text \<open>
  \<^verbatim>\<open>sort((a, b) => b.similarity - a.similarity)\<close> is a stable sort, descending by
  similarity; \<^verbatim>\<open>slice(0, limit)\<close> keeps the first \<open>limit\<close> rows.
\<close>

definition sortBySimilarity :: "match_row list \<Rightarrow> match_row list" where
  "sortBySimilarity allChunks = sort_key (\<lambda>c. - similarity c) allChunks"

definition retrieveRelevantChunksFromFiles ::
  "match_documents_rpc \<Rightarrow> embedding \<Rightarrow> jsstring list \<Rightarrow> nat \<Rightarrow> js_error + match_row list option" where
  "retrieveRelevantChunksFromFiles rpc queryEmbedding fileIds limit =
     (if length fileIds = 0 then Inr (Some [])
      else if length fileIds = 1 then
        retrieveRelevantChunks rpc queryEmbedding (Some (hd fileIds)) limit
      else
        (case collectChunks rpc queryEmbedding fileIds limit [] of
           Inl e \<Rightarrow> Inl e
         | Inr allChunks \<Rightarrow> Inr (Some (take limit (sortBySimilarity allChunks)))))"

text \<open>
  What one source contributes to the merge: its own reply for the limit, every row
  tagged with the source's id.
\<close>

definition sourceTopK :: "match_documents_rpc \<Rightarrow> embedding \<Rightarrow> nat \<Rightarrow> jsstring \<Rightarrow> match_row list" where
  "sourceTopK rpc queryEmbedding limit fileId =
     (case retrieveRelevantChunks rpc queryEmbedding (Some fileId) limit of
        Inr (Some chunks) \<Rightarrow> map (\<lambda>c. c\<lparr>file_id := Some fileId\<rparr>) chunks
      | _ \<Rightarrow> [])"

definition sourceAnswers :: "match_documents_rpc \<Rightarrow> embedding \<Rightarrow> nat \<Rightarrow> jsstring \<Rightarrow> bool" where
  "sourceAnswers rpc queryEmbedding limit fileId =
     (case retrieveRelevantChunks rpc queryEmbedding (Some fileId) limit of
        Inr (Some chunks) \<Rightarrow> True
      | _ \<Rightarrow> False)"

section \<open>Bounded retry (retrySupabaseQuery)\<close>

text \<open>
  The query function is a thunk with effects: what matters to the wrapper is the reply
  of its first, second, ... invocation, so it is given as a function of the number of
  invocations made before. The outcome records the value returned, the number of
  invocations made and the delays waited for (milliseconds, in order).
\<close>

record 'd retry_outcome =
  returned :: "js_error + 'd query_result"
  calls :: nat
  delays :: "nat list"

function retry_loop ::
  "(nat \<Rightarrow> js_error + 'd query_result) \<Rightarrow> nat \<Rightarrow> nat \<Rightarrow> nat \<Rightarrow> nat list \<Rightarrow> 'd retry_outcome" where
  "retry_loop queryFn maxRetries attempt made waited =
     (if attempt \<le> maxRetries then
        (case queryFn made of
           Inl e \<Rightarrow> \<lparr>returned = Inl e, calls = Suc made, delays = waited\<rparr>
         | Inr result \<Rightarrow>
             if error result = None then
               \<lparr>returned = Inr result, calls = Suc made, delays = waited\<rparr>
             else
               retry_loop queryFn maxRetries (attempt + 1) (Suc made)
                 (if attempt < maxRetries then waited @ [attempt * 1000] else waited))
      else \<lparr>returned = queryFn made, calls = Suc made, delays = waited\<rparr>)"
  by pat_completeness auto
termination
  by (relation "measure (\<lambda>(queryFn, maxRetries, attempt, made, waited). Suc maxRetries - attempt)") auto

declare retry_loop.simps [simp del]

definition retrySupabaseQuery ::
  "(nat \<Rightarrow> js_error + 'd query_result) \<Rightarrow> nat \<Rightarrow> 'd retry_outcome" where
  "retrySupabaseQuery queryFn maxRetries = retry_loop queryFn maxRetries 1 0 []"

text \<open>An invocation that comes back with an error in its reply.\<close>

definition failedAttempt :: "(js_error + 'd query_result) \<Rightarrow> bool" where
  "failedAttempt r = (case r of Inl e \<Rightarrow> False | Inr result \<Rightarrow> error result \<noteq> None)"

definition succeededAttempt :: "(js_error + 'd query_result) \<Rightarrow> bool" where
  "succeededAttempt r = (case r of Inl e \<Rightarrow> False | Inr result \<Rightarrow> error result = None)"


section \<open>External collaborators\<close>

text \<open>
  Records of the catalog source and one page of a paginated fetch
  (\<^verbatim>\<open>{ products, hasNextPage, endCursor }\<close>).
\<close>

record variant =
  price_amount :: jsstring
  currencyCode :: jsstring
  availableForSale :: bool
  sku :: "jsstring option"

record shopify_product =
  product_id :: jsstring
  product_title :: jsstring
  product_handle :: jsstring
  product_description :: "jsstring option"
  variants :: "variant list"
  images :: "jsstring list"

record shopify_page =
  page_id :: jsstring
  page_title :: jsstring
  page_handle :: jsstring
  page_body :: "jsstring option"

record shopify_collection =
  collection_id :: jsstring
  collection_title :: jsstring
  collection_handle :: jsstring
  collection_description :: "jsstring option"

record 'r source_page =
  records :: "'r list"
  hasNextPage :: bool
  endCursor :: "jsstring option"

datatype content_type = Product | Page | Collection

datatype chunk_metadata =
    ProductMetadata jsstring nat nat nat
  | HandleMetadata jsstring

text \<open>The argument of \<^verbatim>\<open>storeChunk\<close> and a row of the table \<^verbatim>\<open>shopify_chunks\<close>.\<close>

record ShopifyChunkData =
  cd_content_type :: content_type
  cd_content_id :: jsstring
  cd_title :: jsstring
  cd_text :: jsstring
  cd_metadata :: chunk_metadata

record chunk_row =
  row_store_id :: jsstring
  row_content_type :: content_type
  row_content_id :: jsstring
  row_title :: jsstring
  chunk_text :: jsstring
  row_embedding :: embedding
  row_metadata :: chunk_metadata

text \<open>A row of \<^verbatim>\<open>phone_document_mapping\<close>, as selected by the orchestrator.\<close>

record mapping_row =
  mapping_system_prompt :: "jsstring option"
  mapping_intent :: "jsstring option"
  mapping_auth_token :: "jsstring option"
  mapping_origin :: "jsstring option"

text \<open>
  A row of \<^verbatim>\<open>whatsapp_messages\<close>. Timestamps (\<^verbatim>\<open>toISOString()\<close> of a clock
  reading) are kept as the milliseconds they denote.
\<close>

record raw_payload =
  payload_messageId :: jsstring
  payload_channel :: jsstring
  payload_from :: jsstring
  payload_to :: jsstring
  payload_contentType :: jsstring
  payload_text :: jsstring
  payload_event :: jsstring
  payload_isAutoResponse :: bool

record wa_message =
  message_id :: jsstring
  channel :: jsstring
  from_number :: jsstring
  to_number :: jsstring
  received_at :: nat
  msg_content_type :: jsstring
  content_text :: "jsstring option"
  sender_name :: "jsstring option"
  event_type :: jsstring
  is_in_24_window :: "bool option"
  is_responded :: "bool option"
  msg_raw_payload :: "raw_payload option"
  auto_respond_sent :: "bool option"
  response_sent_at :: "nat option"

text \<open>A hit of the store-scoped chunk query, and the reply of the message sender.\<close>

record shopify_hit =
  hit_id :: jsstring
  hit_chunk_text :: jsstring
  hit_store_id :: jsstring
  hit_content_type :: jsstring
  hit_title :: jsstring
  hit_metadata :: jsstring

record send_result =
  send_success :: bool
  send_error :: "jsstring option"

datatype chat_role = System | User | Assistant

record chat_message =
  role :: chat_role
  content :: jsstring

text \<open>
  Everything the code calls but does not define. Each call may throw (\<open>Inl\<close>). A store
  write is given the table as it stands and answers with the \<^verbatim>\<open>error\<close> of its reply
  (\<open>None\<close>: the write is carried out). \<open>phoneMappingQuery\<close> is given the number of earlier
  invocations, \<open>clock\<close> the number of earlier readings in the run. The three text
  formatters of the processor (tag stripping, price formatting with
  \<^verbatim>\<open>parseFloat\<close> and \<^verbatim>\<open>toFixed\<close>) are left open as well: no property below depends on
  the text they produce.
\<close>

record collaborators =
  embedText :: "jsstring \<Rightarrow> js_error + embedding option"
  match_documents :: match_documents_rpc
  shopifyChunksQuery :: "embedding \<Rightarrow> jsstring \<Rightarrow> nat \<Rightarrow> js_error + shopify_hit list query_result"
  getDataSourceForPhone :: "jsstring \<Rightarrow> js_error + jsstring option"
  getShopifyStoreForPhoneNumber :: "jsstring \<Rightarrow> js_error + jsstring option"
  getFilesForPhoneNumber :: "jsstring \<Rightarrow> js_error + jsstring list"
  phoneMappingQuery :: "jsstring \<Rightarrow> nat \<Rightarrow> js_error + mapping_row list query_result"
  messagesSelect :: "jsstring \<Rightarrow> wa_message list \<Rightarrow> js_error + js_error option"
  messagesUpdate :: "jsstring \<Rightarrow> wa_message list \<Rightarrow> js_error + js_error option"
  messagesInsert :: "wa_message \<Rightarrow> wa_message list \<Rightarrow> js_error + js_error option"
  chatCompletion :: "chat_message list \<Rightarrow> js_error + jsstring option list"
  sendWhatsAppMessage :: "jsstring \<Rightarrow> jsstring \<Rightarrow> jsstring \<Rightarrow> jsstring \<Rightarrow> js_error + send_result"
  clock :: "nat \<Rightarrow> nat"
  getProducts :: "nat \<Rightarrow> jsstring option \<Rightarrow> js_error + shopify_product source_page"
  getPages :: "nat \<Rightarrow> jsstring option \<Rightarrow> js_error + shopify_page source_page"
  getCollections :: "nat \<Rightarrow> jsstring option \<Rightarrow> js_error + shopify_collection source_page"
  productToText :: "shopify_product \<Rightarrow> jsstring"
  pageToText :: "shopify_page \<Rightarrow> jsstring"
  collectionToText :: "shopify_collection \<Rightarrow> jsstring"
  chunksDelete :: "jsstring \<Rightarrow> chunk_row list \<Rightarrow> js_error + js_error option"
  chunksInsert :: "chunk_row \<Rightarrow> chunk_row list \<Rightarrow> js_error + js_error option"

section \<open>Ingestion pipeline (ShopifyDataProcessor)\<close>

text \<open>The state the processor works on: the chunk table and the console.\<close>

record ingest_world =
  chunks :: "chunk_row list"
  console :: "jsstring list"

definition console_log :: "jsstring \<Rightarrow> ingest_world \<Rightarrow> ingest_world" where
  "console_log line w = w\<lparr>console := console w @ [line]\<rparr>"

text \<open>Decimal rendering of a non-negative integer in a template literal.\<close>

function show_nat :: "nat \<Rightarrow> jsstring" where
  "show_nat n = (if n < 10 then [of_nat (48 + n)] else show_nat (n div 10) @ [of_nat (48 + n mod 10)])"
  by pat_completeness auto
termination
  by (relation "measure id") auto

declare show_nat.simps [simp del]

text \<open>
  \<^verbatim>\<open>String.prototype.trim\<close>: the code units of WhiteSpace and LineTerminator are
  removed from both ends.
\<close>

definition js_whitespace :: "code_unit \<Rightarrow> bool" where
  "js_whitespace u =
     (u = 0x0009 \<or> u = 0x000A \<or> u = 0x000B \<or> u = 0x000C \<or> u = 0x000D \<or> u = 0x0020
      \<or> u = 0x00A0 \<or> u = 0x1680 \<or> (0x2000 \<le> u \<and> u \<le> 0x200A) \<or> u = 0x2028 \<or> u = 0x2029
      \<or> u = 0x202F \<or> u = 0x205F \<or> u = 0x3000 \<or> u = 0xFEFF)"

definition trim :: "jsstring \<Rightarrow> jsstring" where
  "trim s = rev (dropWhile js_whitespace (rev (dropWhile js_whitespace s)))"

text \<open>
  Modelled from the spec: \<^verbatim>\<open>chunkText\<close> of \<^verbatim>\<open>./chunk\<close>, which is not among the
  sources. The spec has it split normalized text into bounded-size segments: here the
  consecutive segments of at most \<open>chunkSize\<close> code units.
\<close>

function chunkText :: "jsstring \<Rightarrow> nat \<Rightarrow> jsstring list" where
  "chunkText txt chunkSize =
     (if chunkSize = 0 \<or> txt = [] then []
      else take chunkSize txt # chunkText (drop chunkSize txt) chunkSize)"
  by pat_completeness auto
termination
  by (relation "measure (\<lambda>(txt, chunkSize). length txt)") auto

declare chunkText.simps [simp del]

definition content_type_name :: "content_type \<Rightarrow> jsstring" where
  "content_type_name t =
     (case t of Product \<Rightarrow> js ''product'' | Page \<Rightarrow> js ''page'' | Collection \<Rightarrow> js ''collection'')"

definition clearExistingChunks ::
  "collaborators \<Rightarrow> jsstring \<Rightarrow> ingest_world \<Rightarrow> (js_error + unit) \<times> ingest_world" where
  "clearExistingChunks env storeId w =
     (case chunksDelete env storeId (chunks w) of
        Inl e \<Rightarrow> (Inl e, w)
      | Inr (Some err) \<Rightarrow>
          (Inl (new_Error (js ''Failed to clear existing chunks: '' @ err_message err)), w)
      | Inr None \<Rightarrow>
          (Inr (),
           console_log (js ''Cleared existing chunks for store '' @ storeId)
             (w\<lparr>chunks := filter (\<lambda>r. row_store_id r \<noteq> storeId) (chunks w)\<rparr>)))"

definition storeChunk ::
  "collaborators \<Rightarrow> jsstring \<Rightarrow> ShopifyChunkData \<Rightarrow> ingest_world \<Rightarrow> (js_error + unit) \<times> ingest_world" where
  "storeChunk env storeId chunkData w =
     (case embedText env (cd_text chunkData) of
        Inl e \<Rightarrow> (Inl e, w)
      | Inr None \<Rightarrow>
          (Inl (new_Error (js ''Failed to generate embedding for chunk: '' @ cd_title chunkData)), w)
      | Inr (Some embedding) \<Rightarrow>
          (let row = \<lparr>row_store_id = storeId,
                      row_content_type = cd_content_type chunkData,
                      row_content_id = cd_content_id chunkData,
                      row_title = cd_title chunkData,
                      chunk_text = cd_text chunkData,
                      row_embedding = embedding,
                      row_metadata = cd_metadata chunkData\<rparr>
           in (case chunksInsert env row (chunks w) of
                 Inl e \<Rightarrow> (Inl e, w)
               | Inr None \<Rightarrow> (Inr (), w\<lparr>chunks := chunks w @ [row]\<rparr>)
               | Inr (Some err) \<Rightarrow>
                   if err_code err = Some (js ''23505'') then
                     (Inr (),
                      console_log (js ''Skipping duplicate chunk for ''
                                   @ content_type_name (cd_content_type chunkData)
                                   @ js '': '' @ cd_title chunkData) w)
                   else (Inl (new_Error (js ''Failed to store chunk: '' @ err_message err)), w))))"

text \<open>The loop \<^verbatim>\<open>for (const chunk of chunks) await this.storeChunk({...})\<close>.\<close>

fun storeChunks ::
  "collaborators \<Rightarrow> jsstring \<Rightarrow> ShopifyChunkData list \<Rightarrow> ingest_world \<Rightarrow> (js_error + unit) \<times> ingest_world" where
  "storeChunks env storeId [] w = (Inr (), w)"
| "storeChunks env storeId (chunkData # rest) w =
     (case storeChunk env storeId chunkData w of
        (Inl e, w') \<Rightarrow> (Inl e, w')
      | (Inr u, w') \<Rightarrow> storeChunks env storeId rest w')"

text \<open>\<^verbatim>\<open>chunkText(text, 1500).filter(c => c.trim().length > 0)\<close>\<close>

definition textChunks :: "jsstring \<Rightarrow> jsstring list" where
  "textChunks txt = filter (\<lambda>c. length (trim c) > 0) (chunkText txt 1500)"

definition processProduct ::
  "collaborators \<Rightarrow> jsstring \<Rightarrow> shopify_product \<Rightarrow> ingest_world \<Rightarrow> (js_error + unit) \<times> ingest_world" where
  "processProduct env storeId product w =
     (let txt = productToText env product;
          chunks = textChunks txt;
          metadata = ProductMetadata (product_handle product) (length (variants product))
                       (length (images product))
                       (length (filter availableForSale (variants product)))
      in storeChunks env storeId
           (map (\<lambda>chunk. \<lparr>cd_content_type = Product, cd_content_id = product_id product,
                          cd_title = product_title product, cd_text = chunk,
                          cd_metadata = metadata\<rparr>) chunks) w)"

definition processPage ::
  "collaborators \<Rightarrow> jsstring \<Rightarrow> shopify_page \<Rightarrow> ingest_world \<Rightarrow> (js_error + unit) \<times> ingest_world" where
  "processPage env storeId page w =
     (let txt = pageToText env page;
          chunks = textChunks txt;
          metadata = HandleMetadata (page_handle page)
      in storeChunks env storeId
           (map (\<lambda>chunk. \<lparr>cd_content_type = Page, cd_content_id = page_id page,
                          cd_title = page_title page, cd_text = chunk,
                          cd_metadata = metadata\<rparr>) chunks) w)"

definition processCollection ::
  "collaborators \<Rightarrow> jsstring \<Rightarrow> shopify_collection \<Rightarrow> ingest_world \<Rightarrow> (js_error + unit) \<times> ingest_world" where
  "processCollection env storeId collection w =
     (let txt = collectionToText env collection;
          chunks = textChunks txt;
          metadata = HandleMetadata (collection_handle collection)
      in storeChunks env storeId
           (map (\<lambda>chunk. \<lparr>cd_content_type = Collection, cd_content_id = collection_id collection,
                          cd_title = collection_title collection, cd_text = chunk,
                          cd_metadata = metadata\<rparr>) chunks) w)"

text \<open>
  The three paginated loops have one shape: the inner \<^verbatim>\<open>for\<close> over the records of
  a page, counting them, and the outer \<^verbatim>\<open>while (hasNextPage)\<close>, which ends only when
  the source says so. A run that never ends has the value \<open>None\<close>.
\<close>

fun processRecords ::
  "('r \<Rightarrow> ingest_world \<Rightarrow> (js_error + unit) \<times> ingest_world) \<Rightarrow> 'r list \<Rightarrow> nat \<Rightarrow> ingest_world
     \<Rightarrow> (js_error + nat) \<times> ingest_world" where
  "processRecords processRecord [] count w = (Inr count, w)"
| "processRecords processRecord (r # rest) count w =
     (case processRecord r w of
        (Inl e, w') \<Rightarrow> (Inl e, w')
      | (Inr u, w') \<Rightarrow> processRecords processRecord rest (count + 1) w')"

partial_function (option) paginate ::
  "(nat \<Rightarrow> jsstring option \<Rightarrow> js_error + 'r source_page)
     \<Rightarrow> nat \<Rightarrow> ('r \<Rightarrow> ingest_world \<Rightarrow> (js_error + unit) \<times> ingest_world)
     \<Rightarrow> jsstring option \<Rightarrow> nat \<Rightarrow> ingest_world \<Rightarrow> ((js_error + nat) \<times> ingest_world) option" where
  "paginate fetch pageSize processRecord cursor count w =
     (case fetch pageSize cursor of
        Inl e \<Rightarrow> Some (Inl e, w)
      | Inr page \<Rightarrow>
          (case processRecords processRecord (records page) count w of
             (Inl e, w') \<Rightarrow> Some (Inl e, w')
           | (Inr count', w') \<Rightarrow>
               if hasNextPage page then
                 paginate fetch pageSize processRecord (endCursor page) count' w'
               else Some (Inr count', w')))"

definition processProducts ::
  "collaborators \<Rightarrow> jsstring \<Rightarrow> ingest_world \<Rightarrow> ((js_error + unit) \<times> ingest_world) option" where
  "processProducts env storeId w =
     (case paginate (getProducts env) 250 (processProduct env storeId) None 0
             (console_log (js ''Processing products...'') w) of
        None \<Rightarrow> None
      | Some (Inl e, w') \<Rightarrow> Some (Inl e, w')
      | Some (Inr totalProducts, w') \<Rightarrow>
          Some (Inr (), console_log (js ''Processed '' @ show_nat totalProducts @ js '' products'') w'))"

definition processPages ::
  "collaborators \<Rightarrow> jsstring \<Rightarrow> ingest_world \<Rightarrow> ((js_error + unit) \<times> ingest_world) option" where
  "processPages env storeId w =
     (case paginate (getPages env) 100 (processPage env storeId) None 0
             (console_log (js ''Processing pages...'') w) of
        None \<Rightarrow> None
      | Some (Inl e, w') \<Rightarrow> Some (Inl e, w')
      | Some (Inr totalPages, w') \<Rightarrow>
          Some (Inr (), console_log (js ''Processed '' @ show_nat totalPages @ js '' pages'') w'))"

definition processCollections ::
  "collaborators \<Rightarrow> jsstring \<Rightarrow> ingest_world \<Rightarrow> ((js_error + unit) \<times> ingest_world) option" where
  "processCollections env storeId w =
     (case paginate (getCollections env) 100 (processCollection env storeId) None 0
             (console_log (js ''Processing collections...'') w) of
        None \<Rightarrow> None
      | Some (Inl e, w') \<Rightarrow> Some (Inl e, w')
      | Some (Inr totalCollections, w') \<Rightarrow>
          Some (Inr (),
                console_log (js ''Processed '' @ show_nat totalCollections @ js '' collections'') w'))"

definition processAllData ::
  "collaborators \<Rightarrow> jsstring \<Rightarrow> ingest_world \<Rightarrow> ((js_error + unit) \<times> ingest_world) option" where
  "processAllData env storeId w =
     (case clearExistingChunks env storeId (console_log (js ''Starting Shopify data processing...'') w) of
        (Inl e, w1) \<Rightarrow> Some (Inl e, w1)
      | (Inr u1, w1) \<Rightarrow>
          (case processProducts env storeId w1 of
             None \<Rightarrow> None
           | Some (Inl e, w2) \<Rightarrow> Some (Inl e, w2)
           | Some (Inr u2, w2) \<Rightarrow>
               (case processPages env storeId w2 of
                  None \<Rightarrow> None
                | Some (Inl e, w3) \<Rightarrow> Some (Inl e, w3)
                | Some (Inr u3, w3) \<Rightarrow>
                    (case processCollections env storeId w3 of
                       None \<Rightarrow> None
                     | Some (Inl e, w4) \<Rightarrow> Some (Inl e, w4)
                     | Some (Inr u4, w4) \<Rightarrow>
                         Some (Inr (), console_log (js ''Shopify data processing completed.'') w4)))))"

section \<open>Response orchestrator (generateAutoResponse)\<close>

text \<open>
  \<^verbatim>\<open>AutoResponseResult\<close>; an absent optional field is \<open>None\<close>. The state the
  orchestrator works on is the table \<^verbatim>\<open>whatsapp_messages\<close>. Console output is not
  part of this model.
\<close>

record AutoResponseResult =
  success :: bool
  response :: "jsstring option"
  result_error :: "jsstring option"
  noDocuments :: "bool option"
  sent :: "bool option"

record orch_world =
  messages :: "wa_message list"

text \<open>
  How a stretch of the \<^verbatim>\<open>try\<close> block ends: an exception, a \<^verbatim>\<open>return\<close>, or the
  values the code after it goes on with.
\<close>

datatype 'a step = Throw js_error | Return AutoResponseResult | Continue 'a

text \<open>Truthiness of a value that is a string, \<^verbatim>\<open>null\<close> or \<^verbatim>\<open>undefined\<close>.\<close>

definition truthy :: "jsstring option \<Rightarrow> bool" where
  "truthy v = (case v of None \<Rightarrow> False | Some s \<Rightarrow> s \<noteq> [])"

definition string_of :: "jsstring option \<Rightarrow> jsstring" where
  "string_of v = (case v of None \<Rightarrow> [] | Some s \<Rightarrow> s)"

text \<open>\<^verbatim>\<open>Array.prototype.join\<close> and a text of several lines.\<close>

fun joinWith :: "jsstring \<Rightarrow> jsstring list \<Rightarrow> jsstring" where
  "joinWith sep [] = []"
| "joinWith sep [x] = x"
| "joinWith sep (x # y # rest) = x @ sep @ joinWith sep (y # rest)"

definition js_lines :: "string list \<Rightarrow> jsstring" where
  "js_lines ls = joinWith [0x000A] (map js ls)"

text \<open>Steps 1 and 1.5: the data source and the mapping rows of the business number.\<close>

definition resolveTenant ::
  "collaborators \<Rightarrow> jsstring \<Rightarrow> (jsstring \<times> jsstring option \<times> jsstring \<times> jsstring) step" where
  "resolveTenant env toNumber =
     (case getDataSourceForPhone env toNumber of
        Inl e \<Rightarrow> Throw e
      | Inr dataSource \<Rightarrow>
          if \<not> truthy dataSource then
            Return \<lparr>success = False, response = None,
                    result_error = Some (js ''No data source mapped to this business number''),
                    noDocuments = Some True, sent = None\<rparr>
          else
            (case returned (retrySupabaseQuery (phoneMappingQuery env toNumber) 3) of
               Inl e \<Rightarrow> Throw e
             | Inr reply \<Rightarrow>
                 (case (error reply, data reply) of
                    (None, Some (first # others)) \<Rightarrow>
                      (let customSystemPrompt = mapping_system_prompt first;
                           auth_token = mapping_auth_token first;
                           origin = mapping_origin first
                       in if \<not> truthy auth_token \<or> \<not> truthy origin then
                            Return \<lparr>success = False, response = None,
                                    result_error = Some (js ''No WhatsApp API credentials found. Please set credentials in the Configuration tab.''),
                                    noDocuments = None, sent = None\<rparr>
                          else Continue (string_of dataSource, customSystemPrompt,
                                         string_of auth_token, string_of origin))
                  | _ \<Rightarrow>
                      Return \<lparr>success = False, response = None,
                              result_error = Some (js ''Failed to fetch phone mapping details''),
                              noDocuments = None, sent = None\<rparr>)))"

text \<open>\<^verbatim>\<open>retrieveRelevantShopifyChunks\<close> of src/lib/retrieval.ts.\<close>

definition retrieveRelevantShopifyChunks ::
  "collaborators \<Rightarrow> embedding \<Rightarrow> jsstring \<Rightarrow> nat \<Rightarrow> js_error + match_row list" where
  "retrieveRelevantShopifyChunks env queryEmbedding storeId limit =
     (case shopifyChunksQuery env queryEmbedding storeId limit of
        Inl e \<Rightarrow> Inl e
      | Inr res \<Rightarrow>
          (case error res of
             Some e \<Rightarrow> Inl e
           | None \<Rightarrow>
               Inr (case data res of
                      None \<Rightarrow> []
                    | Some rows \<Rightarrow>
                        map (\<lambda>row. \<lparr>match_id = hit_id row, chunk = hit_chunk_text row,
                                     similarity = 0, file_id = None,
                                     shopify_fields = Some (hit_store_id row, hit_content_type row,
                                                            hit_title row, hit_metadata row)\<rparr>) rows)))"

text \<open>Steps 2 and 3: the query embedding and the chunks of the mapped source.\<close>

definition retrieveMatches ::
  "collaborators \<Rightarrow> jsstring \<Rightarrow> jsstring \<Rightarrow> jsstring \<Rightarrow> match_row list step" where
  "retrieveMatches env dataSource toNumber messageText =
     (case embedText env messageText of
        Inl e \<Rightarrow> Throw e
      | Inr None \<Rightarrow>
          Return \<lparr>success = False, response = None,
                  result_error = Some (js ''Failed to generate embedding for message''),
                  noDocuments = None, sent = None\<rparr>
      | Inr (Some queryEmbedding) \<Rightarrow>
          if dataSource = js ''shopify'' then
            (case getShopifyStoreForPhoneNumber env toNumber of
               Inl e \<Rightarrow> Throw e
             | Inr shopifyStoreId \<Rightarrow>
                 if \<not> truthy shopifyStoreId then
                   Return \<lparr>success = False, response = None,
                           result_error = Some (js ''No Shopify store mapped to this business number''),
                           noDocuments = Some True, sent = None\<rparr>
                 else
                   (case retrieveRelevantShopifyChunks env queryEmbedding (string_of shopifyStoreId) 5 of
                      Inl e \<Rightarrow> Throw e
                    | Inr matches \<Rightarrow> Continue matches))
          else
            (case getFilesForPhoneNumber env toNumber of
               Inl e \<Rightarrow> Throw e
             | Inr fileIds \<Rightarrow>
                 if length fileIds = 0 then
                   Return \<lparr>success = False, response = None,
                           result_error = Some (js ''No documents mapped to this business number''),
                           noDocuments = Some True, sent = None\<rparr>
                 else
                   (case retrieveRelevantChunksFromFiles (match_documents env) queryEmbedding fileIds 5 of
                      Inl e \<Rightarrow> Throw e
                    | Inr None \<Rightarrow> Throw (typeError ''null'' ''length'')
                    | Inr (Some matches) \<Rightarrow> Continue matches)))"

text \<open>
  Step 4. The select on \<^verbatim>\<open>whatsapp_messages\<close>: the rows with the customer's number
  as sender or recipient, ordered by \<^verbatim>\<open>received_at\<close> ascending (rows of equal time in
  table order), the first 20 of them. A reply with an error has \<^verbatim>\<open>data\<close> null.
\<close>

definition involves :: "jsstring \<Rightarrow> wa_message \<Rightarrow> bool" where
  "involves fromNumber m = (from_number m = fromNumber \<or> to_number m = fromNumber)"

definition selectHistory :: "jsstring \<Rightarrow> wa_message list \<Rightarrow> wa_message list" where
  "selectHistory fromNumber table = take 20 (sort_key received_at (filter (involves fromNumber) table))"

definition fetchHistoryRows ::
  "collaborators \<Rightarrow> jsstring \<Rightarrow> orch_world \<Rightarrow> js_error + wa_message list option" where
  "fetchHistoryRows env fromNumber w =
     (case messagesSelect env fromNumber (messages w) of
        Inl e \<Rightarrow> Inl e
      | Inr (Some err) \<Rightarrow> Inr None
      | Inr None \<Rightarrow> Inr (Some (selectHistory fromNumber (messages w))))"

definition qualifies :: "wa_message \<Rightarrow> bool" where
  "qualifies m =
     (truthy (content_text m) \<and> (event_type m = js ''MoMessage'' \<or> event_type m = js ''MtMessage''))"

definition toHistoryEntry :: "wa_message \<Rightarrow> chat_message" where
  "toHistoryEntry m =
     \<lparr>role = (if event_type m = js ''MoMessage'' then User else Assistant),
      content = string_of (content_text m)\<rparr>"

definition historyRowsOrEmpty :: "wa_message list option \<Rightarrow> wa_message list" where
  "historyRowsOrEmpty historyRows = (case historyRows of None \<Rightarrow> [] | Some rows \<Rightarrow> rows)"

definition buildHistory :: "wa_message list option \<Rightarrow> chat_message list" where
  "buildHistory historyRows = map toHistoryEntry (filter qualifies (historyRowsOrEmpty historyRows))"

text \<open>\<^verbatim>\<open>slice(-10)\<close>\<close>

definition lastTen :: "'a list \<Rightarrow> 'a list" where
  "lastTen xs = drop (length xs - 10) xs"

text \<open>Step 5: the prompt.\<close>

definition shopifyRules :: jsstring where
  \<open>shopifyRules = js_lines
     [''You are a helpful Shopify store assistant. Your ONLY job is to answer customer questions based strictly on the provided store data.'',
      [],
      ''STRICT RULES:'',
      ''- ONLY answer using information from the CONTEXT below'',
      ''- Focus on products, pricing, availability, and store information'',
      ''- If asked about unavailable products, inform customer politely'',
      ''- Provide pricing in the store's currency format'',
      ''- If information is not in the context, say you don't have that information but can help with other questions'',
      ''- Be friendly, helpful, and conversational'',
      ''- Detect the customer's language and respond in the same language'',
      ''- Keep responses concise and appropriate for WhatsApp chat'',
      ''- Format responses with line breaks for readability'']\<close>

definition documentRules :: jsstring where
  \<open>documentRules = js_lines
     [''Your ONLY job is to answer questions based strictly on the provided document context.'',
      [],
      ''STRICT RULES:'',
      ''- ONLY answer questions using information from the CONTEXT below'',
      ''- If the answer is not in the CONTEXT, say "I don't have that information in the document"'',
      ''- NEVER use your general knowledge or make assumptions beyond the document'',
      ''- NEVER offer to do tasks you cannot do (generate files, make calls, etc.)'',
      ''- Be concise and friendly - keep responses under 300 words'',
      ''- Use clear, simple language appropriate for WhatsApp chat'',
      ''- Format responses with line breaks for readability'']\<close>

definition baseRules :: "jsstring \<Rightarrow> jsstring" where
  "baseRules dataSource = (if dataSource = js ''shopify'' then shopifyRules else documentRules)"

definition composeSystemPrompt :: "jsstring option \<Rightarrow> jsstring \<Rightarrow> jsstring" where
  "composeSystemPrompt customSystemPrompt dataSource =
     (if truthy customSystemPrompt then
        string_of customSystemPrompt @ [0x000A, 0x000A] @ baseRules dataSource
      else
        js ''You are a helpful ''
        @ (if dataSource = js ''shopify'' then js ''Shopify store'' else js ''WhatsApp'')
        @ js '' assistant.'' @ [0x000A, 0x000A] @ baseRules dataSource)"

definition composeMessages ::
  "jsstring \<Rightarrow> match_row list \<Rightarrow> chat_message list \<Rightarrow> jsstring \<Rightarrow> chat_message list" where
  "composeMessages systemPrompt matches history messageText =
     (let contextText = joinWith [0x000A, 0x000A] (map chunk matches)
      in [\<lparr>role = System,
            content = systemPrompt @ [0x000A, 0x000A] @ js ''CONTEXT:'' @ [0x000A]
                      @ (if contextText \<noteq> [] then contextText
                         else js ''No relevant context found in the documents.'')\<rparr>]
         @ lastTen history
         @ [\<lparr>role = User, content = messageText\<rparr>])"

text \<open>
  Steps 1 to 5 together: the reply of the language model, with the credentials of the
  first mapping row.
\<close>

definition generateReply ::
  "collaborators \<Rightarrow> jsstring \<Rightarrow> jsstring \<Rightarrow> jsstring \<Rightarrow> orch_world \<Rightarrow> (jsstring \<times> jsstring \<times> jsstring) step" where
  "generateReply env fromNumber toNumber messageText w =
     (case resolveTenant env toNumber of
        Throw e \<Rightarrow> Throw e
      | Return r \<Rightarrow> Return r
      | Continue (dataSource, customSystemPrompt, auth_token, origin) \<Rightarrow>
          (case retrieveMatches env dataSource toNumber messageText of
             Throw e \<Rightarrow> Throw e
           | Return r \<Rightarrow> Return r
           | Continue matches \<Rightarrow>
               (case fetchHistoryRows env fromNumber w of
                  Inl e \<Rightarrow> Throw e
                | Inr historyRows \<Rightarrow>
                    (case chatCompletion env
                            (composeMessages (composeSystemPrompt customSystemPrompt dataSource)
                               matches (buildHistory historyRows) messageText) of
                       Inl e \<Rightarrow> Throw e
                     | Inr [] \<Rightarrow> Throw (typeError ''undefined'' ''message'')
                     | Inr (choice # others) \<Rightarrow>
                         if \<not> truthy choice then
                           Return \<lparr>success = False, response = None,
                                   result_error = Some (js ''No response generated from LLM''),
                                   noDocuments = None, sent = None\<rparr>
                         else Continue (string_of choice, auth_token, origin)))))"

text \<open>
  The update of the inbound row, keyed by its message id, and the insert of the
  outbound turn. A write the store answers with an error leaves the table as it is;
  the code does not look at the reply.
\<close>

definition markResponse ::
  "collaborators \<Rightarrow> jsstring \<Rightarrow> bool \<Rightarrow> nat \<Rightarrow> orch_world \<Rightarrow> (js_error + unit) \<times> orch_world" where
  "markResponse env messageId flag now w =
     (case messagesUpdate env messageId (messages w) of
        Inl e \<Rightarrow> (Inl e, w)
      | Inr (Some err) \<Rightarrow> (Inr (), w)
      | Inr None \<Rightarrow>
          (Inr (),
           w\<lparr>messages :=
               map (\<lambda>m. if message_id m = messageId
                         then m\<lparr>auto_respond_sent := Some flag, response_sent_at := Some now\<rparr>
                         else m) (messages w)\<rparr>))"

definition responseMessageId :: "jsstring \<Rightarrow> nat \<Rightarrow> jsstring" where
  "responseMessageId messageId now = js ''auto_'' @ messageId @ js ''_'' @ show_nat now"

definition outboundTurn :: "jsstring \<Rightarrow> jsstring \<Rightarrow> jsstring \<Rightarrow> jsstring \<Rightarrow> nat \<Rightarrow> wa_message" where
  "outboundTurn outboundId fromNumber toNumber reply now =
     \<lparr>message_id = outboundId,
      channel = js ''whatsapp'',
      from_number = toNumber,
      to_number = fromNumber,
      received_at = now,
      msg_content_type = js ''text'',
      content_text = Some reply,
      sender_name = Some (js ''AI Assistant''),
      event_type = js ''MtMessage'',
      is_in_24_window = Some True,
      is_responded = Some False,
      msg_raw_payload =
        Some \<lparr>payload_messageId = outboundId, payload_channel = js ''whatsapp'',
              payload_from = toNumber, payload_to = fromNumber,
              payload_contentType = js ''text'', payload_text = reply,
              payload_event = js ''MtMessage'', payload_isAutoResponse = True\<rparr>,
      auto_respond_sent = None,
      response_sent_at = None\<rparr>"

definition insertMessage ::
  "collaborators \<Rightarrow> wa_message \<Rightarrow> orch_world \<Rightarrow> (js_error + unit) \<times> orch_world" where
  "insertMessage env row w =
     (case messagesInsert env row (messages w) of
        Inl e \<Rightarrow> (Inl e, w)
      | Inr (Some err) \<Rightarrow> (Inr (), w)
      | Inr None \<Rightarrow> (Inr (), w\<lparr>messages := messages w @ [row]\<rparr>))"

text \<open>Steps 6.5 and 7, after a send that succeeded.\<close>

definition persistResponse ::
  "collaborators \<Rightarrow> jsstring \<Rightarrow> jsstring \<Rightarrow> jsstring \<Rightarrow> jsstring \<Rightarrow> orch_world
     \<Rightarrow> (js_error + AutoResponseResult) \<times> orch_world" where
  "persistResponse env fromNumber toNumber messageId reply w =
     (case insertMessage env
             (outboundTurn (responseMessageId messageId (clock env 0)) fromNumber toNumber
                reply (clock env 1)) w of
        (Inl e, w1) \<Rightarrow> (Inl e, w1)
      | (Inr u1, w1) \<Rightarrow>
          (case markResponse env messageId True (clock env 2) w1 of
             (Inl e, w2) \<Rightarrow> (Inl e, w2)
           | (Inr u2, w2) \<Rightarrow>
               (Inr \<lparr>success = True, response = Some reply, result_error = None,
                     noDocuments = None, sent = Some True\<rparr>, w2)))"

text \<open>Step 6 and what follows it; \<^verbatim>\<open>${sendResult.error}\<close> of an absent error reads "undefined".\<close>

definition sendAndPersist ::
  "collaborators \<Rightarrow> jsstring \<Rightarrow> jsstring \<Rightarrow> jsstring \<Rightarrow> jsstring \<Rightarrow> jsstring \<Rightarrow> jsstring \<Rightarrow> orch_world
     \<Rightarrow> (js_error + AutoResponseResult) \<times> orch_world" where
  "sendAndPersist env fromNumber toNumber messageId reply auth_token origin w =
     (case sendWhatsAppMessage env fromNumber reply auth_token origin of
        Inl e \<Rightarrow> (Inl e, w)
      | Inr sendResult \<Rightarrow>
          if \<not> send_success sendResult then
            (case markResponse env messageId False (clock env 0) w of
               (Inl e, w') \<Rightarrow> (Inl e, w')
             | (Inr u, w') \<Rightarrow>
                 (Inr \<lparr>success = False, response = Some reply,
                       result_error =
                         Some (js ''Generated response but failed to send: ''
                               @ (case send_error sendResult of
                                    None \<Rightarrow> js ''undefined'' | Some msg \<Rightarrow> msg)),
                       noDocuments = None, sent = Some False\<rparr>, w'))
          else persistResponse env fromNumber toNumber messageId reply w)"

text \<open>The body of the \<^verbatim>\<open>try\<close> block.\<close>

definition generateAutoResponse_try ::
  "collaborators \<Rightarrow> jsstring \<Rightarrow> jsstring \<Rightarrow> jsstring \<Rightarrow> jsstring \<Rightarrow> orch_world
     \<Rightarrow> (js_error + AutoResponseResult) \<times> orch_world" where
  "generateAutoResponse_try env fromNumber toNumber messageText messageId w =
     (case generateReply env fromNumber toNumber messageText w of
        Throw e \<Rightarrow> (Inl e, w)
      | Return r \<Rightarrow> (Inr r, w)
      | Continue (reply, auth_token, origin) \<Rightarrow>
          sendAndPersist env fromNumber toNumber messageId reply auth_token origin w)"

text \<open>
  The function with its \<^verbatim>\<open>catch\<close>. The first component is how the promise it
  returns settles: \<open>Inl\<close> rejected, \<open>Inr\<close> fulfilled.
\<close>

definition generateAutoResponse ::
  "collaborators \<Rightarrow> jsstring \<Rightarrow> jsstring \<Rightarrow> jsstring \<Rightarrow> jsstring \<Rightarrow> orch_world
     \<Rightarrow> (js_error + AutoResponseResult) \<times> orch_world" where
  "generateAutoResponse env fromNumber toNumber messageText messageId w =
     (case generateAutoResponse_try env fromNumber toNumber messageText messageId w of
        (Inl e, w') \<Rightarrow>
          (Inr \<lparr>success = False, response = None,
                result_error = Some (if is_Error e then err_message e else js ''Unknown error''),
                noDocuments = None, sent = None\<rparr>, w')
      | (Inr r, w') \<Rightarrow> (Inr r, w'))"

section \<open>Predicates and transformations the properties are stated with\<close>

text \<open>
  A row that \<open>storeChunk\<close> builds from a chunk (the embedding apart), and the row itself.
\<close>

definition rowFrom :: "jsstring \<Rightarrow> ShopifyChunkData \<Rightarrow> chunk_row \<Rightarrow> bool" where
  "rowFrom storeId chunkData r =
     (row_store_id r = storeId \<and> row_content_type r = cd_content_type chunkData
      \<and> row_content_id r = cd_content_id chunkData \<and> row_title r = cd_title chunkData
      \<and> chunk_text r = cd_text chunkData \<and> row_metadata r = cd_metadata chunkData)"

definition rowOf :: "jsstring \<Rightarrow> ShopifyChunkData \<Rightarrow> embedding \<Rightarrow> chunk_row" where
  "rowOf storeId chunkData v =
     \<lparr>row_store_id = storeId, row_content_type = cd_content_type chunkData,
      row_content_id = cd_content_id chunkData, row_title = cd_title chunkData,
      chunk_text = cd_text chunkData, row_embedding = v, row_metadata = cd_metadata chunkData\<rparr>"

text \<open>
  A text within the chunk-size bound that \<open>trim\<close> does not empty.
\<close>

definition storableText :: "jsstring \<Rightarrow> bool" where
  "storableText c = (length c \<le> 1500 \<and> c \<noteq> [] \<and> list_ex (\<lambda>u. \<not> js_whitespace u) c)"

text \<open>
  A row of this store whose text is one of the chunks of the text of a record that the
  catalog source serves now, on some page of one of its three listings.
\<close>

definition fromCurrentSource :: "collaborators \<Rightarrow> jsstring \<Rightarrow> chunk_row \<Rightarrow> bool" where
  "fromCurrentSource env storeId r =
     (row_store_id r = storeId \<and>
      ((\<exists>cursor page. getProducts env 250 cursor = Inr page \<and>
          (\<exists>product \<in> set (records page).
              row_content_type r = Product \<and> row_content_id r = product_id product
              \<and> chunk_text r \<in> set (textChunks (productToText env product))))
       \<or> (\<exists>cursor page. getPages env 100 cursor = Inr page \<and>
          (\<exists>p \<in> set (records page).
              row_content_type r = Page \<and> row_content_id r = page_id p
              \<and> chunk_text r \<in> set (textChunks (pageToText env p))))
       \<or> (\<exists>cursor page. getCollections env 100 cursor = Inr page \<and>
          (\<exists>collection \<in> set (records page).
              row_content_type r = Collection \<and> row_content_id r = collection_id collection
              \<and> chunk_text r \<in> set (textChunks (collectionToText env collection))))))"

text \<open>
  A reply of the mapping lookup with the rows after its first replaced, and the
  collaborators with every such reply changed so.
\<close>

definition replaceLaterRows ::
  "(mapping_row list \<Rightarrow> mapping_row list) \<Rightarrow> mapping_row list query_result \<Rightarrow> mapping_row list query_result" where
  "replaceLaterRows f reply =
     reply\<lparr>data := (case data reply of
                       Some (first # others) \<Rightarrow> Some (first # f others)
                     | d \<Rightarrow> d)\<rparr>"

definition withLaterRows ::
  "(mapping_row list \<Rightarrow> mapping_row list) \<Rightarrow> collaborators \<Rightarrow> collaborators" where
  "withLaterRows f env =
     env\<lparr>phoneMappingQuery :=
           (\<lambda>toNumber n. case phoneMappingQuery env toNumber n of
                            Inl e \<Rightarrow> Inl e
                          | Inr reply \<Rightarrow> Inr (replaceLaterRows f reply))\<rparr>"

text \<open>
  The update of the rows with a given message id.
\<close>

definition markRow :: "jsstring \<Rightarrow> bool \<Rightarrow> nat \<Rightarrow> wa_message \<Rightarrow> wa_message" where
  "markRow messageId flag now m =
     (if message_id m = messageId
      then m\<lparr>auto_respond_sent := Some flag, response_sent_at := Some now\<rparr> else m)"

text \<open>
  The number a decimal rendering stands for.
\<close>

definition digits_value :: "jsstring \<Rightarrow> nat" where
  "digits_value ds = foldl (\<lambda>a d. 10 * a + (unat d - 48)) 0 ds"

text \<open>
  The stable merge of two lists by a key, and a store whose reply for a source is
  exactly the K best rows it holds for it, by descending similarity (\<open>contents\<close> gives
  the rows held for each target).
\<close>

fun merge_key :: "('a \<Rightarrow> 'k::linorder) \<Rightarrow> 'a list \<Rightarrow> 'a list \<Rightarrow> 'a list" where
  "merge_key key [] later = later"
| "merge_key key earlier [] = earlier"
| "merge_key key (a # earlier) (b # later) =
     (if key b < key a then b # merge_key key (a # earlier) later
      else a # merge_key key earlier (b # later))"

definition exactStore :: "(jsstring option \<Rightarrow> match_row list) \<Rightarrow> match_documents_rpc" where
  "exactStore contents queryEmbedding fileId k =
     Inr \<lparr>data = Some (take k (sortBySimilarity (contents fileId))), error = None\<rparr>"

definition taggedContents :: "(jsstring option \<Rightarrow> match_row list) \<Rightarrow> jsstring \<Rightarrow> match_row list" where
  "taggedContents contents fileId = map (\<lambda>c. c\<lparr>file_id := Some fileId\<rparr>) (contents (Some fileId))"

section \<open>Example inputs\<close>

text \<open>
  A query that fails twice and then answers, and one that always fails.
\<close>

definition timeoutReply :: "nat query_result" where
  "timeoutReply = \<lparr>data = None, error = Some (new_Error (js ''timeout''))\<rparr>"

definition flakyQuery :: "nat \<Rightarrow> js_error + nat query_result" where
  "flakyQuery n = (if n < 2 then Inr timeoutReply else Inr \<lparr>data = Some 7, error = None\<rparr>)"

definition brokenQuery :: "nat \<Rightarrow> js_error + nat query_result" where
  "brokenQuery n = Inr timeoutReply"

text \<open>
  Two files with two rows each.
\<close>

definition sampleMatch :: "string \<Rightarrow> real \<Rightarrow> match_row" where
  "sampleMatch name s = \<lparr>match_id = js name, chunk = js name, similarity = s, file_id = None,
                          shopify_fields = None\<rparr>"

definition twoFiles :: match_documents_rpc where
  "twoFiles q fileId k =
     Inr \<lparr>data = Some (take k (if fileId = Some (js ''A'')
                                  then [sampleMatch ''a1'' 0.9, sampleMatch ''a2'' 0.8]
                                  else [sampleMatch ''b1'' 0.85, sampleMatch ''b2'' 0.1])),
          error = None\<rparr>"

text \<open>
  Collaborators that answer every call with an empty success.
\<close>

definition quietCollaborators :: collaborators where
  "quietCollaborators =
     \<lparr>embedText = (\<lambda>t. Inr (Some [])),
      match_documents = (\<lambda>q f k. Inr \<lparr>data = Some [], error = None\<rparr>),
      shopifyChunksQuery = (\<lambda>q s k. Inr \<lparr>data = Some [], error = None\<rparr>),
      getDataSourceForPhone = (\<lambda>n. Inr None),
      getShopifyStoreForPhoneNumber = (\<lambda>n. Inr None),
      getFilesForPhoneNumber = (\<lambda>n. Inr []),
      phoneMappingQuery = (\<lambda>n i. Inr \<lparr>data = Some [], error = None\<rparr>),
      messagesSelect = (\<lambda>n t. Inr None),
      messagesUpdate = (\<lambda>i t. Inr None),
      messagesInsert = (\<lambda>r t. Inr None),
      chatCompletion = (\<lambda>ms. Inr []),
      sendWhatsAppMessage = (\<lambda>a b c d. Inr \<lparr>send_success = True, send_error = None\<rparr>),
      clock = (\<lambda>k. 0),
      getProducts = (\<lambda>n c. Inr \<lparr>records = [], hasNextPage = False, endCursor = None\<rparr>),
      getPages = (\<lambda>n c. Inr \<lparr>records = [], hasNextPage = False, endCursor = None\<rparr>),
      getCollections = (\<lambda>n c. Inr \<lparr>records = [], hasNextPage = False, endCursor = None\<rparr>),
      productToText = (\<lambda>p. []),
      pageToText = (\<lambda>p. []),
      collectionToText = (\<lambda>p. []),
      chunksDelete = (\<lambda>s t. Inr None),
      chunksInsert = (\<lambda>r t. Inr None)\<rparr>"

text \<open>
  A shop with one product on the first of two pages, and a table that holds a row of an
  earlier run of this store and a row of another store.
\<close>

definition blueMug :: shopify_product where
  "blueMug = \<lparr>product_id = js ''p1'', product_title = js ''Blue Mug'',
              product_handle = js ''blue-mug'', product_description = None,
              variants = [\<lparr>price_amount = js ''12.00'', currencyCode = js ''USD'',
                           availableForSale = True, sku = None\<rparr>],
              images = []\<rparr>"

definition demoShop :: collaborators where
  "demoShop = quietCollaborators
     \<lparr>embedText := (\<lambda>t. Inr (Some [1])),
      getProducts := (\<lambda>n c. if c = None
                         then Inr \<lparr>records = [blueMug], hasNextPage = True, endCursor = Some (js ''c1'')\<rparr>
                         else Inr \<lparr>records = [], hasNextPage = False, endCursor = None\<rparr>),
      productToText := (\<lambda>p. js ''Mug 12.00 USD'')\<rparr>"

definition staleRow :: "string \<Rightarrow> string \<Rightarrow> chunk_row" where
  "staleRow store t = \<lparr>row_store_id = js store, row_content_type = Page, row_content_id = js ''old'',
              row_title = js ''Old'', chunk_text = js t, row_embedding = [],
              row_metadata = HandleMetadata (js ''old'')\<rparr>"

definition staleWorld :: ingest_world where
  "staleWorld = \<lparr>chunks = [staleRow ''s1'' ''old text'', staleRow ''s2'' ''theirs''], console = []\<rparr>"

definition brokenDelete :: collaborators where
  "brokenDelete = demoShop
     \<lparr>chunksDelete := (\<lambda>s t. Inr (Some \<lparr>is_Error = False, err_message = js ''permission denied'',
                                          err_code = Some (js ''42501'')\<rparr>))\<rparr>"

text \<open>
  A text of 3100 code units: 1600 letters and 1500 spaces.
\<close>

definition longText :: jsstring where
  "longText = replicate 1600 0x0041 @ replicate 1500 0x0020"

definition longShop :: collaborators where
  "longShop = quietCollaborators
     \<lparr>embedText := (\<lambda>t. Inr (Some [1])),
      productToText := (\<lambda>p. longText),
      pageToText := (\<lambda>p. longText)\<rparr>"

definition aboutPage :: shopify_page where
  "aboutPage = \<lparr>page_id = js ''g1'', page_title = js ''About'', page_handle = js ''about'',
                page_body = None\<rparr>"

definition emptyWorld :: ingest_world where
  "emptyWorld = \<lparr>chunks = [], console = []\<rparr>"

text \<open>
  A store that answers the insert of the text ``dup'' with a unique violation and of the
  text ``bad'' with another error.
\<close>

definition duplicateKey :: js_error where
  "duplicateKey = \<lparr>is_Error = False,
      err_message = js ''duplicate key value violates unique constraint'',
      err_code = Some (js ''23505'')\<rparr>"

definition notNull :: js_error where
  "notNull = \<lparr>is_Error = False, err_message = js ''null value in column'',
      err_code = Some (js ''23502'')\<rparr>"

definition pickyStore :: collaborators where
  "pickyStore = quietCollaborators
     \<lparr>embedText := (\<lambda>t. Inr (Some [1])),
      chunksInsert := (\<lambda>r t. if chunk_text r = js ''dup'' then Inr (Some duplicateKey)
                             else if chunk_text r = js ''bad'' then Inr (Some notNull)
                             else Inr None)\<rparr>"

definition chunkOf :: "string \<Rightarrow> ShopifyChunkData" where
  "chunkOf t = \<lparr>cd_content_type = Product, cd_content_id = js ''p1'', cd_title = js ''Mug'',
                cd_text = js t, cd_metadata = HandleMetadata (js ''mug'')\<rparr>"

text \<open>
  A help desk mapped to one file, with two mapping rows; variants of it whose sender
  or embedder fails; a stored inbound turn.
\<close>

definition customer :: jsstring where "customer = js ''111''"
definition business :: jsstring where "business = js ''999''"

definition firstMapping :: mapping_row where
  "firstMapping = \<lparr>mapping_system_prompt = Some (js ''Be brief.''), mapping_intent = None,
                    mapping_auth_token = Some (js ''tok1''),
                    mapping_origin = Some (js ''https://a.example'')\<rparr>"

definition secondMapping :: mapping_row where
  "secondMapping = \<lparr>mapping_system_prompt = Some (js ''Be verbose.''), mapping_intent = None,
                     mapping_auth_token = Some (js ''tok2''),
                     mapping_origin = Some (js ''https://b.example'')\<rparr>"

definition manualChunk :: match_row where
  "manualChunk = \<lparr>match_id = js ''c1'', chunk = js ''Opening hours: 9 to 5'', similarity = 0.9,
                   file_id = None, shopify_fields = None\<rparr>"

definition helpDesk :: collaborators where
  "helpDesk = quietCollaborators
     \<lparr>embedText := (\<lambda>t. Inr (Some [1])),
      match_documents := (\<lambda>q f k. Inr \<lparr>data = Some [manualChunk], error = None\<rparr>),
      getDataSourceForPhone := (\<lambda>n. Inr (Some (js ''files''))),
      getFilesForPhoneNumber := (\<lambda>n. Inr [js ''f1'']),
      phoneMappingQuery := (\<lambda>n i. Inr \<lparr>data = Some [firstMapping, secondMapping], error = None\<rparr>),
      chatCompletion := (\<lambda>ms. Inr [Some (js ''We open at 9.'')]),
      clock := (\<lambda>k. 1000 + k)\<rparr>"

definition sendDown :: collaborators where
  "sendDown = helpDesk
     \<lparr>sendWhatsAppMessage := (\<lambda>a b c d. Inr \<lparr>send_success = False, send_error = Some (js ''401'')\<rparr>)\<rparr>"

definition embedderDown :: collaborators where
  "embedderDown = helpDesk \<lparr>embedText := (\<lambda>t. Inl (new_Error (js ''rate limited'')))\<rparr>"

definition inboundTurn :: "nat \<Rightarrow> wa_message" where
  "inboundTurn i =
     \<lparr>message_id = js ''m'' @ show_nat i, channel = js ''whatsapp'', from_number = customer,
      to_number = business, received_at = i, msg_content_type = js ''text'',
      content_text = Some (js ''question '' @ show_nat i), sender_name = None,
      event_type = js ''MoMessage'', is_in_24_window = Some True, is_responded = Some False,
      msg_raw_payload = None, auto_respond_sent = None, response_sent_at = None\<rparr>"

definition inbox :: orch_world where
  "inbox = \<lparr>messages = [inboundTurn 1]\<rparr>"

text \<open>
  The help desk at a given clock reading, with a store that refuses a row whose
  message id it already holds.
\<close>

definition deskAt :: "nat \<Rightarrow> collaborators" where
  "deskAt t = helpDesk
     \<lparr>clock := (\<lambda>k. t + k),
      messagesInsert := (\<lambda>row table. if message_id row \<in> set (map message_id table)
                                      then Inr (Some duplicateKey) else Inr None)\<rparr>"

definition firstAnswer :: wa_message where
  "firstAnswer = outboundTurn (js ''auto_m1_1000'') customer business (js ''We open at 9.'') 1001"

definition secondAnswer :: wa_message where
  "secondAnswer = outboundTurn (js ''auto_m1_2000'') customer business (js ''We open at 9.'') 2001"

text \<open>
  A mapping row without prompt or credentials; a help desk whose language model answers
  by the opening of the system message and whose sender accepts one token and origin
  only; and that desk with its two mapping rows in the other order.
\<close>

definition thirdMapping :: mapping_row where
  "thirdMapping = \<lparr>mapping_system_prompt = None, mapping_intent = None,
                    mapping_auth_token = None, mapping_origin = None\<rparr>"

definition frontDesk :: collaborators where
  "frontDesk = helpDesk
     \<lparr>chatCompletion :=
        (\<lambda>ms. case ms of
                [] \<Rightarrow> Inr []
              | m # rest \<Rightarrow>
                  if take 9 (content m) = js ''Be brief.'' then Inr [Some (js ''We open at 9.'')]
                  else Inr [Some (js ''Our opening hours are on the website.'')]),
      sendWhatsAppMessage :=
        (\<lambda>recipient t token origin.
            if token = js ''tok1'' \<and> origin = js ''https://a.example''
            then Inr \<lparr>send_success = True, send_error = None\<rparr>
            else Inr \<lparr>send_success = False, send_error = Some (js ''401'')\<rparr>)\<rparr>"

definition backOffice :: collaborators where
  "backOffice = frontDesk
     \<lparr>phoneMappingQuery := (\<lambda>n i. Inr \<lparr>data = Some [secondMapping, firstMapping], error = None\<rparr>)\<rparr>"

text \<open>
  The rows held for two files, and a store whose reply for the first file lists its
  second best row first.
\<close>

definition shelf :: "jsstring option \<Rightarrow> match_row list" where
  "shelf fileId =
     (if fileId = Some (js ''A'') then [sampleMatch ''a1'' 0.9, sampleMatch ''a2'' 0.8]
      else [sampleMatch ''b1'' 0.85])"

definition missingBest :: match_documents_rpc where
  "missingBest q fileId k =
     Inr \<lparr>data = Some (take k (if fileId = Some (js ''A'')
                                  then [sampleMatch ''a2'' 0.8, sampleMatch ''a1'' 0.9]
                                  else [sampleMatch ''b1'' 0.85])),
          error = None\<rparr>"

section \<open>Properties of the bounded retry and of the multi-file merge\<close>

lemma retry_loop_stops:
  assumes "attempt \<le> k" and "k \<le> maxRetries"
    and "\<forall>i. attempt \<le> i \<and> i < k \<longrightarrow> failedAttempt (queryFn (made + (i - attempt)))"
    and "\<not> failedAttempt (queryFn (made + (k - attempt)))"
  shows "retry_loop queryFn maxRetries attempt made waited =
           \<lparr>returned = queryFn (made + (k - attempt)), calls = Suc (made + (k - attempt)),
            delays = waited @ map (\<lambda>a. a * 1000) [attempt..<k]\<rparr>"
  using assms
proof (induction "k - attempt" arbitrary: attempt made waited)
  case 0
  then have eq: "k = attempt" by simp
  from 0 eq have nf: "\<not> failedAttempt (queryFn made)" by simp
  from 0 eq have le: "attempt \<le> maxRetries" by simp
  show ?case using nf le unfolding eq
    by (subst retry_loop.simps) (auto simp: failedAttempt_def split: sum.splits)
next
  case (Suc d)
  then have lt: "attempt < k" and le: "attempt \<le> maxRetries" and lt': "attempt < maxRetries" by auto
  from Suc.prems(3) lt have f: "failedAttempt (queryFn made)"
    by (metis diff_self_eq_0 add.right_neutral order_refl)
  have ih: "retry_loop queryFn maxRetries (attempt + 1) (Suc made) (waited @ [attempt * 1000]) =
      \<lparr>returned = queryFn (Suc made + (k - (attempt + 1))), calls = Suc (Suc made + (k - (attempt + 1))),
       delays = (waited @ [attempt * 1000]) @ map (\<lambda>a. a * 1000) [attempt + 1..<k]\<rparr>"
  proof (rule Suc.hyps(1))
    show "d = k - (attempt + 1)" using Suc.hyps(2) by simp
    show "attempt + 1 \<le> k" using lt by simp
    show "k \<le> maxRetries" by fact
    show "\<forall>i. attempt + 1 \<le> i \<and> i < k \<longrightarrow> failedAttempt (queryFn (Suc made + (i - (attempt + 1))))"
    proof (intro allI impI)
      fix i assume a: "attempt + 1 \<le> i \<and> i < k"
      then have "failedAttempt (queryFn (made + (i - attempt)))" using Suc.prems(3) by simp
      moreover have "made + (i - attempt) = Suc made + (i - (attempt + 1))" using a by arith
      ultimately show "failedAttempt (queryFn (Suc made + (i - (attempt + 1))))" by simp
    qed
    show "\<not> failedAttempt (queryFn (Suc made + (k - (attempt + 1))))"
    proof -
      have "made + (k - attempt) = Suc made + (k - (attempt + 1))" using lt by arith
      then show ?thesis using Suc.prems(4) by simp
    qed
  qed
  have idx: "Suc made + (k - (attempt + 1)) = made + (k - attempt)" using lt by arith
  have ups: "[attempt..<k] = attempt # [attempt + 1..<k]" using lt by (simp add: upt_conv_Cons)
  show ?case
    using f le lt' ih unfolding idx ups
    by (subst retry_loop.simps) (auto simp: failedAttempt_def split: sum.splits)
qed

lemma retry_loop_exhausted:
  assumes "attempt \<le> Suc maxRetries"
    and "\<forall>i. attempt \<le> i \<and> i \<le> maxRetries \<longrightarrow> failedAttempt (queryFn (made + (i - attempt)))"
  shows "retry_loop queryFn maxRetries attempt made waited =
           \<lparr>returned = queryFn (made + (Suc maxRetries - attempt)),
            calls = Suc (made + (Suc maxRetries - attempt)),
            delays = waited @ map (\<lambda>a. a * 1000) [attempt..<maxRetries]\<rparr>"
  using assms
proof (induction "Suc maxRetries - attempt" arbitrary: attempt made waited)
  case 0
  then have "\<not> attempt \<le> maxRetries" by simp
  moreover from 0 have "Suc maxRetries - attempt = 0" by simp
  moreover from 0 have "[attempt..<maxRetries] = []" by simp
  ultimately show ?case
    by (subst retry_loop.simps) simp
next
  case (Suc d)
  then have le: "attempt \<le> maxRetries" by simp
  from Suc.prems(2) le have f: "failedAttempt (queryFn made)"
    by (metis diff_self_eq_0 add.right_neutral order_refl)
  let ?w = "if attempt < maxRetries then waited @ [attempt * 1000] else waited"
  have ih: "retry_loop queryFn maxRetries (attempt + 1) (Suc made) ?w =
      \<lparr>returned = queryFn (Suc made + (Suc maxRetries - (attempt + 1))),
       calls = Suc (Suc made + (Suc maxRetries - (attempt + 1))),
       delays = ?w @ map (\<lambda>a. a * 1000) [attempt + 1..<maxRetries]\<rparr>"
  proof (rule Suc.hyps(1))
    show "d = Suc maxRetries - (attempt + 1)" using Suc.hyps(2) by simp
    show "attempt + 1 \<le> Suc maxRetries" using le by simp
    show "\<forall>i. attempt + 1 \<le> i \<and> i \<le> maxRetries \<longrightarrow> failedAttempt (queryFn (Suc made + (i - (attempt + 1))))"
    proof (intro allI impI)
      fix i assume a: "attempt + 1 \<le> i \<and> i \<le> maxRetries"
      then have "failedAttempt (queryFn (made + (i - attempt)))" using Suc.prems(2) by simp
      moreover have "made + (i - attempt) = Suc made + (i - (attempt + 1))" using a by arith
      ultimately show "failedAttempt (queryFn (Suc made + (i - (attempt + 1))))" by simp
    qed
  qed
  have idx: "Suc made + (Suc maxRetries - (attempt + 1)) = made + (Suc maxRetries - attempt)"
    using le by arith
  have ws: "?w @ map (\<lambda>a. a * 1000) [attempt + 1..<maxRetries] =
            waited @ map (\<lambda>a. a * 1000) [attempt..<maxRetries]"
    using le by (cases "attempt < maxRetries") (simp_all add: upt_conv_Cons)
  show ?case
    using f le ih unfolding idx ws
    by (subst retry_loop.simps) (auto simp: failedAttempt_def split: sum.splits)
qed

text \<open>
  Claim C3. The retry wrapper returns at once the reply of the first invocation that has
  no error, having waited 1000 ms times the attempt number after each failed attempt
  before it. When each of the \<open>maxRetries\<close> attempts of the loop fails, it waits after
  every attempt but the last, then invokes the query function once more and returns
  that reply as it is, error included: \<open>maxRetries + 1\<close> invocations in all.
\<close>

theorem retrySupabaseQuery_contract:
  "(i < maxRetries \<and> (\<forall>j<i. failedAttempt (queryFn j)) \<and> succeededAttempt (queryFn i) \<longrightarrow>
      retrySupabaseQuery queryFn maxRetries =
        \<lparr>returned = queryFn i, calls = Suc i, delays = map (\<lambda>a. a * 1000) [1..<Suc i]\<rparr>)
   \<and> ((\<forall>j<maxRetries. failedAttempt (queryFn j)) \<longrightarrow>
      retrySupabaseQuery queryFn maxRetries =
        \<lparr>returned = queryFn maxRetries, calls = Suc maxRetries,
         delays = map (\<lambda>a. a * 1000) [1..<maxRetries]\<rparr>)"
proof (intro conjI impI)
  assume a: "i < maxRetries \<and> (\<forall>j<i. failedAttempt (queryFn j)) \<and> succeededAttempt (queryFn i)"
  then have nf: "\<not> failedAttempt (queryFn (0 + (Suc i - 1)))"
    by (auto simp: failedAttempt_def succeededAttempt_def split: sum.splits)
  have fs: "\<forall>k. 1 \<le> k \<and> k < Suc i \<longrightarrow> failedAttempt (queryFn (0 + (k - 1)))"
    using a by auto
  have "retry_loop queryFn maxRetries 1 0 [] =
      \<lparr>returned = queryFn (0 + (Suc i - 1)), calls = Suc (0 + (Suc i - 1)),
       delays = [] @ map (\<lambda>a. a * 1000) [1..<Suc i]\<rparr>"
    by (rule retry_loop_stops) (use a fs nf in auto)
  then show "retrySupabaseQuery queryFn maxRetries =
        \<lparr>returned = queryFn i, calls = Suc i, delays = map (\<lambda>a. a * 1000) [1..<Suc i]\<rparr>"
    by (simp add: retrySupabaseQuery_def)
next
  assume a: "\<forall>j<maxRetries. failedAttempt (queryFn j)"
  have fs: "\<forall>k. 1 \<le> k \<and> k \<le> maxRetries \<longrightarrow> failedAttempt (queryFn (0 + (k - 1)))"
    using a by auto
  have "retry_loop queryFn maxRetries 1 0 [] =
      \<lparr>returned = queryFn (0 + (Suc maxRetries - 1)), calls = Suc (0 + (Suc maxRetries - 1)),
       delays = [] @ map (\<lambda>a. a * 1000) [1..<maxRetries]\<rparr>"
    by (rule retry_loop_exhausted) (use fs in auto)
  then show "retrySupabaseQuery queryFn maxRetries =
        \<lparr>returned = queryFn maxRetries, calls = Suc maxRetries,
         delays = map (\<lambda>a. a * 1000) [1..<maxRetries]\<rparr>"
    by (simp add: retrySupabaseQuery_def)
qed

theorem retrySupabaseQuery_contract_witness:
  "retrySupabaseQuery flakyQuery 3 =
     \<lparr>returned = Inr \<lparr>data = Some 7, error = None\<rparr>, calls = 3, delays = [1000, 2000]\<rparr>
   \<and> retrySupabaseQuery brokenQuery 3 =
     \<lparr>returned = Inr timeoutReply, calls = 4, delays = [1000, 2000]\<rparr>"
proof -
  have u3: "map (\<lambda>a. a * 1000) [1..<Suc 2] = [1000, 2000::nat]"
    "map (\<lambda>a. a * 1000) [1..<3] = [1000, 2000::nat]"
    by code_simp+
  have a: "(2::nat) < 3 \<and> (\<forall>j<2. failedAttempt (flakyQuery j)) \<and> succeededAttempt (flakyQuery 2)"
    by (simp add: flakyQuery_def failedAttempt_def succeededAttempt_def timeoutReply_def)
  have b: "\<forall>j<3. failedAttempt (brokenQuery j)"
    by (simp add: brokenQuery_def failedAttempt_def timeoutReply_def)
  have A: "retrySupabaseQuery flakyQuery 3 =
      \<lparr>returned = flakyQuery 2, calls = Suc 2, delays = map (\<lambda>a. a * 1000) [1..<Suc 2]\<rparr>"
    using retrySupabaseQuery_contract [of 2 3 flakyQuery] a by blast
  have B: "retrySupabaseQuery brokenQuery 3 =
      \<lparr>returned = brokenQuery 3, calls = Suc 3, delays = map (\<lambda>a. a * 1000) [1..<3]\<rparr>"
    using retrySupabaseQuery_contract [of 0 3 brokenQuery] b by blast
  show ?thesis
    unfolding A B u3 by (simp add: flakyQuery_def brokenQuery_def)
qed

lemma collectChunks_answers:
  "list_all (sourceAnswers rpc q limit) fileIds \<Longrightarrow>
   collectChunks rpc q fileIds limit acc =
     Inr (acc @ concat (map (sourceTopK rpc q limit) fileIds))"
proof (induction fileIds arbitrary: acc)
  case Nil
  then show ?case by simp
next
  case (Cons f fs)
  then show ?case
    by (auto simp: sourceAnswers_def sourceTopK_def split: sum.splits option.splits)
qed

lemma sortBySimilarity_descending:
  "sorted_wrt (\<lambda>a b. similarity a \<ge> similarity b) (sortBySimilarity xs)"
proof -
  have "sorted (map (\<lambda>c. - similarity c) (sortBySimilarity xs))"
    by (simp add: sortBySimilarity_def)
  then show ?thesis
    by (simp add: sorted_map)
qed

lemma collectChunks_throws:
  "\<not> list_all (sourceAnswers rpc q limit) fileIds \<Longrightarrow>
   \<exists>e. collectChunks rpc q fileIds limit acc = Inl e"
proof (induction fileIds arbitrary: acc)
  case Nil
  then show ?case by simp
next
  case (Cons f fs)
  show ?case
  proof (cases "sourceAnswers rpc q limit f")
    case True
    with Cons.prems have "\<not> list_all (sourceAnswers rpc q limit) fs" by simp
    from Cons.IH [OF this] True show ?thesis
      by (auto simp: sourceAnswers_def split: sum.splits option.splits)
  next
    case False
    then show ?thesis
      by (auto simp: sourceAnswers_def split: sum.splits option.splits)
  qed
qed

text \<open>
  Claim C1. For two or more source ids, each of which the store answers, the multi-file
  retrieval returns the first \<open>limit\<close> rows of the stable descending sort of the
  concatenation of the sources' own replies for that limit, each row tagged with its
  source: a list sorted descending by similarity, of length at most \<open>limit\<close>. When a
  source does not answer (the call throws, or its reply has an error or no data), the
  retrieval throws. That the list is the global top K is not asserted: this is a matter
  of the store's replies, as the two lemmas after the example show.
\<close>

theorem retrieveRelevantChunksFromFiles_merge:
  assumes "2 \<le> length fileIds"
  shows "(list_all (sourceAnswers rpc q limit) fileIds \<longrightarrow>
      (\<exists>result.
          retrieveRelevantChunksFromFiles rpc q fileIds limit = Inr (Some result)
        \<and> result = take limit (sortBySimilarity (concat (map (sourceTopK rpc q limit) fileIds)))
        \<and> sorted_wrt (\<lambda>a b. similarity a \<ge> similarity b) result
        \<and> length result \<le> limit))
    \<and> (\<not> list_all (sourceAnswers rpc q limit) fileIds \<longrightarrow>
      (\<exists>e. retrieveRelevantChunksFromFiles rpc q fileIds limit = Inl e))"
proof (intro conjI impI)
  from assms have n: "length fileIds \<noteq> 0" "length fileIds \<noteq> 1" by auto
  {
    assume a: "list_all (sourceAnswers rpc q limit) fileIds"
    let ?merged = "take limit (sortBySimilarity (concat (map (sourceTopK rpc q limit) fileIds)))"
    have "retrieveRelevantChunksFromFiles rpc q fileIds limit = Inr (Some ?merged)"
      using n unfolding retrieveRelevantChunksFromFiles_def
      by (simp only: if_False collectChunks_answers [OF a] sum.case append_Nil)
    moreover have "sorted_wrt (\<lambda>a b. similarity a \<ge> similarity b) ?merged"
      by (rule sorted_wrt_take) (rule sortBySimilarity_descending)
    moreover have "length ?merged \<le> limit" by simp
    ultimately show "\<exists>result.
          retrieveRelevantChunksFromFiles rpc q fileIds limit = Inr (Some result)
        \<and> result = take limit (sortBySimilarity (concat (map (sourceTopK rpc q limit) fileIds)))
        \<and> sorted_wrt (\<lambda>a b. similarity a \<ge> similarity b) result
        \<and> length result \<le> limit" by blast
  }
  {
    assume "\<not> list_all (sourceAnswers rpc q limit) fileIds"
    from collectChunks_throws [OF this, of "[]"] obtain e where
      "collectChunks rpc q fileIds limit [] = Inl e" by blast
    with n show "\<exists>e. retrieveRelevantChunksFromFiles rpc q fileIds limit = Inl e"
      by (simp add: retrieveRelevantChunksFromFiles_def)
  }
qed

lemma twoFiles_A:
  "sourceTopK twoFiles [] 2 (js ''A'') =
     [(sampleMatch ''a1'' 0.9)\<lparr>file_id := Some (js ''A'')\<rparr>,
      (sampleMatch ''a2'' 0.8)\<lparr>file_id := Some (js ''A'')\<rparr>]"
  by (simp add: sourceTopK_def retrieveRelevantChunks_def twoFiles_def)

lemma twoFiles_B:
  "sourceTopK twoFiles [] 2 (js ''B'') =
     [(sampleMatch ''b1'' 0.85)\<lparr>file_id := Some (js ''B'')\<rparr>,
      (sampleMatch ''b2'' 0.1)\<lparr>file_id := Some (js ''B'')\<rparr>]"
proof -
  have "js ''B'' \<noteq> js ''A''" by (simp add: js_def)
  then show ?thesis
    by (simp add: sourceTopK_def retrieveRelevantChunks_def twoFiles_def)
qed

theorem retrieveRelevantChunksFromFiles_merge_witness:
  "2 \<le> length [js ''A'', js ''B'']
   \<and> retrieveRelevantChunksFromFiles twoFiles [] [js ''A'', js ''B''] 2 =
       Inr (Some [(sampleMatch ''a1'' 0.9)\<lparr>file_id := Some (js ''A'')\<rparr>,
                  (sampleMatch ''b1'' 0.85)\<lparr>file_id := Some (js ''B'')\<rparr>])"
proof -
  have l: "2 \<le> length [js ''A'', js ''B'']" by simp
  have a: "list_all (sourceAnswers twoFiles [] 2) [js ''A'', js ''B'']"
    by (simp add: sourceAnswers_def retrieveRelevantChunks_def twoFiles_def)
  from retrieveRelevantChunksFromFiles_merge [OF l, of twoFiles "[]" 2] a obtain result where
    r: "retrieveRelevantChunksFromFiles twoFiles [] [js ''A'', js ''B''] 2 = Inr (Some result)"
    and m: "result = take 2 (sortBySimilarity
              (concat (map (sourceTopK twoFiles [] 2) [js ''A'', js ''B''])))"
    by blast
  have "result = [(sampleMatch ''a1'' 0.9)\<lparr>file_id := Some (js ''A'')\<rparr>,
                  (sampleMatch ''b1'' 0.85)\<lparr>file_id := Some (js ''B'')\<rparr>]"
    unfolding m by (simp add: twoFiles_A twoFiles_B sortBySimilarity_def sampleMatch_def)
  with r l show ?thesis by simp
qed

lemma insort_merge_key:
  "insort_key f x (merge_key f xs ys) = merge_key f (insort_key f x xs) ys"
proof (induction f xs ys rule: merge_key.induct)
  case (1 f ys)
  show ?case by (induction ys) auto
next
  case (2 f v va)
  show ?case by simp
next
  case (3 f a as b bs)
  then show ?case by auto
qed

lemma foldr_insort_merge_key:
  "foldr (insort_key f) xs zs = merge_key f (sort_key f xs) zs"
  by (induction xs) (simp_all add: insort_merge_key)

lemma sort_key_append_merge:
  "sort_key f (xs @ ys) = merge_key f (sort_key f xs) (sort_key f ys)"
proof -
  have "sort_key f (xs @ ys) = foldr (insort_key f) xs (sort_key f ys)"
    by (simp add: sort_key_def)
  then show ?thesis by (simp add: foldr_insort_merge_key)
qed

lemma merge_key_Nil2 [simp]: "merge_key f xs [] = xs"
  by (cases xs) simp_all

lemma take_merge_key:
  "k \<le> m \<Longrightarrow> k \<le> n \<Longrightarrow>
   take k (merge_key f (take m xs) (take n ys)) = take k (merge_key f xs ys)"
proof (induction f xs ys arbitrary: k m n rule: merge_key.induct)
  case (1 f ys)
  then show ?case by (simp add: min_def)
next
  case (2 f v va)
  then show ?case by (simp add: min_def del: take_Suc_Cons take_Cons_numeral)
next
  case (3 f a as b bs)
  show ?case
  proof (cases k)
    case 0
    then show ?thesis by simp
  next
    case (Suc j)
    with 3(3,4) obtain m' n' where mn: "m = Suc m'" "n = Suc n'" "j \<le> m'" "j \<le> n'"
      by (metis Suc_le_D Suc_le_mono)
    show ?thesis
    proof (cases "f b < f a")
      case True
      have "take j (merge_key f (take (Suc m') (a # as)) (take n' bs)) =
            take j (merge_key f (a # as) bs)"
        by (rule 3(1) [OF True]) (use mn in simp_all)
      with True Suc mn show ?thesis by simp
    next
      case False
      have "take j (merge_key f (take m' as) (take (Suc n') (b # bs))) =
            take j (merge_key f as (b # bs))"
        by (rule 3(2) [OF False]) (use mn in simp_all)
      with False Suc mn show ?thesis by simp
    qed
  qed
qed

lemma topK_of_topKs:
  "take k (sort_key f (concat (map (\<lambda>xs. take k (sort_key f xs)) xss))) =
   take k (sort_key f (concat xss))"
proof (induction xss)
  case Nil
  show ?case by simp
next
  case (Cons xs xss)
  let ?T = "\<lambda>xs. take k (sort_key f xs)"
  have s: "sort_key f (?T xs) = ?T xs"
    by (rule sort_key_id_if_sorted) (simp add: take_map [symmetric] sorted_wrt_take)
  have "take k (sort_key f (concat (map ?T (xs # xss)))) =
        take k (merge_key f (?T xs) (sort_key f (concat (map ?T xss))))"
    by (simp add: sort_key_append_merge s)
  also have "\<dots> = take k (merge_key f (take k (?T xs)) (take k (sort_key f (concat (map ?T xss)))))"
    by (rule take_merge_key [symmetric]) simp_all
  also have "\<dots> = take k (merge_key f (take k (sort_key f xs)) (take k (sort_key f (concat xss))))"
    by (simp add: Cons.IH)
  also have "\<dots> = take k (merge_key f (sort_key f xs) (sort_key f (concat xss)))"
    by (rule take_merge_key) simp_all
  also have "\<dots> = take k (sort_key f (concat (xs # xss)))"
    by (simp add: sort_key_append_merge)
  finally show ?case .
qed

lemma insort_key_map_tag:
  "(\<And>y. f (g y) = h y) \<Longrightarrow> insort_key f (g x) (map g ys) = map g (insort_key h x ys)"
  by (induction ys) simp_all

lemma sort_key_map_tag:
  "(\<And>y. f (g y) = h y) \<Longrightarrow> sort_key f (map g xs) = map g (sort_key h xs)"
  by (induction xs) (simp_all add: insort_key_map_tag)

lemma sortBySimilarity_tag:
  "sortBySimilarity (map (\<lambda>c. c\<lparr>file_id := Some fileId\<rparr>) xs) =
   map (\<lambda>c. c\<lparr>file_id := Some fileId\<rparr>) (sortBySimilarity xs)"
  unfolding sortBySimilarity_def by (rule sort_key_map_tag) simp

lemma exactStore_source:
  "sourceTopK (exactStore contents) q k fileId =
     take k (sortBySimilarity (taggedContents contents fileId))"
  by (simp add: sourceTopK_def retrieveRelevantChunks_def exactStore_def taggedContents_def
      sortBySimilarity_tag take_map)

lemma exactStore_answers: "list_all (sourceAnswers (exactStore contents) q k) fileIds"
  by (simp add: list_all_iff sourceAnswers_def retrieveRelevantChunks_def exactStore_def)

text \<open>
  Whether the merged list is the global top K depends on the store alone. When the reply
  of every source is exactly its own K best rows (stable, descending by similarity), the
  merge is the K best rows of all the sources' rows together: truncating each source
  before the merge loses nothing.
\<close>

lemma exact_sources_give_global_topK:
  assumes "2 \<le> length fileIds"
  shows "retrieveRelevantChunksFromFiles (exactStore contents) q fileIds k =
     Inr (Some (take k (sortBySimilarity (concat (map (taggedContents contents) fileIds)))))"
proof -
  from assms have n: "length fileIds \<noteq> 0" "length fileIds \<noteq> 1" by auto
  have "map (sourceTopK (exactStore contents) q k) fileIds =
        map (\<lambda>xs. take k (sortBySimilarity xs)) (map (taggedContents contents) fileIds)"
    by (simp add: exactStore_source)
  then have "take k (sortBySimilarity (concat (map (sourceTopK (exactStore contents) q k) fileIds))) =
        take k (sortBySimilarity (concat (map (taggedContents contents) fileIds)))"
    unfolding sortBySimilarity_def by (simp only: topK_of_topKs)
  with n show ?thesis
    unfolding retrieveRelevantChunksFromFiles_def
    by (simp only: if_False collectChunks_answers [OF exactStore_answers] sum.case append_Nil)
qed

text \<open>
  With a store whose reply is not exact (here an index that lists the second best row
  of a file first), the merge differs from the global top K.
\<close>

lemma inexact_source_misses_global_best:
  "retrieveRelevantChunksFromFiles missingBest [] [js ''A'', js ''B''] 1 =
     Inr (Some [(sampleMatch ''b1'' 0.85)\<lparr>file_id := Some (js ''B'')\<rparr>])
   \<and> retrieveRelevantChunksFromFiles (exactStore shelf) [] [js ''A'', js ''B''] 1 =
     Inr (Some [(sampleMatch ''a1'' 0.9)\<lparr>file_id := Some (js ''A'')\<rparr>])"
proof -
  have ne: "js ''B'' \<noteq> js ''A''" by (simp add: js_def)
  have l: "2 \<le> length [js ''A'', js ''B'']" by simp
  have a: "retrieveRelevantChunksFromFiles missingBest [] [js ''A'', js ''B''] 1 =
     Inr (Some [(sampleMatch ''b1'' 0.85)\<lparr>file_id := Some (js ''B'')\<rparr>])"
    by (simp add: retrieveRelevantChunksFromFiles_def retrieveRelevantChunks_def missingBest_def
        ne sortBySimilarity_def sampleMatch_def)
  have b: "retrieveRelevantChunksFromFiles (exactStore shelf) [] [js ''A'', js ''B''] 1 =
     Inr (Some [(sampleMatch ''a1'' 0.9)\<lparr>file_id := Some (js ''A'')\<rparr>])"
    unfolding exact_sources_give_global_topK [OF l]
    by (simp add: taggedContents_def shelf_def ne sortBySimilarity_def sampleMatch_def)
  from a b show ?thesis by simp
qed

section \<open>Properties of the ingestion pipeline\<close>

lemma chunks_console_log [simp]: "chunks (console_log l w) = chunks w"
  by (simp add: console_log_def)

lemma storeChunk_appends:
  assumes "storeChunk env storeId chunkData w = (res, w')"
  shows "chunks w' = chunks w \<or> (\<exists>r. chunks w' = chunks w @ [r] \<and> rowFrom storeId chunkData r)"
  using assms
  by (auto simp: storeChunk_def rowFrom_def Let_def split: sum.splits option.splits if_splits)

lemma storeChunks_appends:
  "storeChunks env storeId cds w = (res, w') \<Longrightarrow>
   \<exists>written. chunks w' = chunks w @ written
     \<and> list_all (\<lambda>r. \<exists>chunkData \<in> set cds. rowFrom storeId chunkData r) written"
proof (induction cds arbitrary: w)
  case Nil
  then show ?case by simp
next
  case (Cons cd cds)
  obtain r1 w1 where s1: "storeChunk env storeId cd w = (r1, w1)" by (cases "storeChunk env storeId cd w")
  from storeChunk_appends [OF s1] obtain first where
    f: "chunks w1 = chunks w @ first" "list_all (rowFrom storeId cd) first"
    by (auto simp: list_all_iff)
  show ?case
  proof (cases r1)
    case (Inl e)
    with Cons.prems s1 have "w' = w1" by simp
    with f show ?thesis
      by (intro exI [of _ first]) (auto simp: list_all_iff)
  next
    case (Inr u)
    with Cons.prems s1 have "storeChunks env storeId cds w1 = (res, w')" by simp
    from Cons.IH [OF this] obtain more where
      m: "chunks w' = chunks w1 @ more"
         "list_all (\<lambda>r. \<exists>chunkData \<in> set cds. rowFrom storeId chunkData r) more"
      by blast
    with f show ?thesis
      by (intro exI [of _ "first @ more"]) (auto simp: list_all_iff)
  qed
qed

lemma processRecords_appends:
  assumes "processRecords proc rs n w = (res, w')"
    and "\<And>r w1 res1 w2. r \<in> set rs \<Longrightarrow> proc r w1 = (res1, w2) \<Longrightarrow>
           \<exists>ins. chunks w2 = chunks w1 @ ins \<and> list_all Q ins"
  shows "\<exists>ins. chunks w' = chunks w @ ins \<and> list_all Q ins"
  using assms
proof (induction rs arbitrary: n w)
  case Nil
  then show ?case by simp
next
  case (Cons r rs)
  obtain r1 w1 where s1: "proc r w = (r1, w1)" by (cases "proc r w")
  from Cons.prems(2) [OF _ s1] obtain first where
    f: "chunks w1 = chunks w @ first" "list_all Q first" by auto
  show ?case
  proof (cases r1)
    case (Inl e)
    with Cons.prems(1) s1 have "w' = w1" by simp
    with f show ?thesis by blast
  next
    case (Inr u)
    with Cons.prems(1) s1 have "processRecords proc rs (n + 1) w1 = (res, w')" by simp
    from Cons.IH [OF this] Cons.prems(2) obtain more where
      m: "chunks w' = chunks w1 @ more" "list_all Q more"
      by (metis list.set_intros(2))
    with f show ?thesis
      by (intro exI [of _ "first @ more"]) simp
  qed
qed

lemma paginate_appends:
  assumes "paginate fetch pageSize proc cursor n w = Some (res, w')"
    and "\<And>c pg r w1 res1 w2. fetch pageSize c = Inr pg \<Longrightarrow> r \<in> set (records pg) \<Longrightarrow>
           proc r w1 = (res1, w2) \<Longrightarrow> \<exists>ins. chunks w2 = chunks w1 @ ins \<and> list_all Q ins"
  shows "\<exists>ins. chunks w' = chunks w @ ins \<and> list_all Q ins"
proof -
  let ?H = "\<lambda>fetch pageSize proc.
     (\<forall>c pg r w1 res1 w2. fetch pageSize c = Inr pg \<longrightarrow> r \<in> set (records pg) \<longrightarrow>
           proc r w1 = (res1, w2) \<longrightarrow> (\<exists>ins. chunks w2 = chunks w1 @ ins \<and> list_all Q ins))"
  let ?P = "\<lambda>fetch pageSize proc (cursor :: jsstring option) (n :: nat) w (y :: (js_error + nat) \<times> ingest_world).
          ?H fetch pageSize proc \<longrightarrow> (\<exists>ins. chunks (snd y) = chunks w @ ins \<and> list_all Q ins)"
  have "?P fetch pageSize proc cursor n w (res, w')"
  proof (rule paginate.raw_induct [where P = ?P, OF _ assms(1)], goal_cases)
    case (1 rec fetch pageSize proc cursor n w y)
    show ?case
    proof
      assume H: "?H fetch pageSize proc"
      show "\<exists>ins. chunks (snd y) = chunks w @ ins \<and> list_all Q ins"
      proof (cases "fetch pageSize cursor")
        case (Inl e)
        with 1(2) have "snd y = w" by auto
        then show ?thesis by simp
      next
        case (Inr pg)
        obtain r1 w1 where pr: "processRecords proc (records pg) n w = (r1, w1)"
          by (cases "processRecords proc (records pg) n w")
        have "\<exists>ins. chunks w1 = chunks w @ ins \<and> list_all Q ins"
          by (rule processRecords_appends [OF pr]) (use H Inr in blast)
        then obtain first where f: "chunks w1 = chunks w @ first" "list_all Q first" by blast
        show ?thesis
        proof (cases r1)
          case (Inl e)
          with 1(2) Inr pr have "snd y = w1" by auto
          with f show ?thesis by auto
        next
          case r: (Inr n')
          show ?thesis
          proof (cases "hasNextPage pg")
            case False
            with 1(2) Inr pr r have "snd y = w1" by auto
            with f show ?thesis by auto
          next
            case True
            with 1(2) Inr pr r have "rec fetch pageSize proc (endCursor pg) n' w1 = Some y" by simp
            from 1(1) [OF this] H obtain more where
              m: "chunks (snd y) = chunks w1 @ more" "list_all Q more" by blast
            with f show ?thesis
              by (intro exI [of _ "first @ more"]) simp
          qed
        qed
      qed
    qed
  qed
  with assms(2) show ?thesis by auto
qed

lemma chunkText_bounded: "c \<in> set (chunkText t chunkSize) \<Longrightarrow> length c \<le> chunkSize"
proof (induction t chunkSize rule: chunkText.induct)
  case (1 t chunkSize)
  show ?case
  proof (cases "chunkSize = 0 \<or> t = []")
    case True
    with 1(2) show ?thesis by (simp add: chunkText.simps)
  next
    case False
    with 1(2) have "c = take chunkSize t \<or> c \<in> set (chunkText (drop chunkSize t) chunkSize)"
      using chunkText.simps [of t chunkSize] by auto
    with 1(1) False show ?thesis by auto
  qed
qed

lemma textChunks_member:
  "c \<in> set (textChunks txt) \<Longrightarrow> length c \<le> 1500 \<and> trim c \<noteq> []"
  by (auto simp: textChunks_def dest: chunkText_bounded)

lemma trim_nonempty: "trim c \<noteq> [] \<Longrightarrow> c \<noteq> [] \<and> list_ex (\<lambda>u. \<not> js_whitespace u) c"
proof -
  assume "trim c \<noteq> []"
  then have "dropWhile js_whitespace (rev (dropWhile js_whitespace c)) \<noteq> []"
    by (simp add: trim_def)
  then obtain u where "u \<in> set (rev (dropWhile js_whitespace c))" "\<not> js_whitespace u"
    by (metis dropWhile_eq_Nil_conv)
  then have "u \<in> set c" "\<not> js_whitespace u"
    by (auto dest: set_dropWhileD)
  then show ?thesis by (auto simp: list_ex_iff)
qed

lemma textChunks_storable: "c \<in> set (textChunks t) \<Longrightarrow> storableText c"
  using textChunks_member [of c t] trim_nonempty [of c] by (simp add: storableText_def)

lemma processProduct_appends:
  assumes "processProduct env storeId product w = (res, w')"
  shows "\<exists>written. chunks w' = chunks w @ written \<and>
      list_all (\<lambda>r. row_store_id r = storeId \<and> row_content_type r = Product
                  \<and> row_content_id r = product_id product
                  \<and> chunk_text r \<in> set (textChunks (productToText env product))) written"
proof -
  from assms obtain cds where
    run: "storeChunks env storeId cds w = (res, w')" and
    cds: "\<forall>cd \<in> set cds. cd_content_type cd = Product \<and> cd_content_id cd = product_id product
            \<and> cd_text cd \<in> set (textChunks (productToText env product))"
    by (auto simp: processProduct_def Let_def)
  from storeChunks_appends [OF run] obtain written where
    "chunks w' = chunks w @ written"
    "list_all (\<lambda>r. \<exists>chunkData \<in> set cds. rowFrom storeId chunkData r) written" by blast
  with cds show ?thesis
    by (intro exI [of _ written]) (auto simp: list_all_iff rowFrom_def)
qed

lemma processPage_appends:
  assumes "processPage env storeId page w = (res, w')"
  shows "\<exists>written. chunks w' = chunks w @ written \<and>
      list_all (\<lambda>r. row_store_id r = storeId \<and> row_content_type r = Page
                  \<and> row_content_id r = page_id page
                  \<and> chunk_text r \<in> set (textChunks (pageToText env page))) written"
proof -
  from assms obtain cds where
    run: "storeChunks env storeId cds w = (res, w')" and
    cds: "\<forall>cd \<in> set cds. cd_content_type cd = Page \<and> cd_content_id cd = page_id page
            \<and> cd_text cd \<in> set (textChunks (pageToText env page))"
    by (auto simp: processPage_def Let_def)
  from storeChunks_appends [OF run] obtain written where
    "chunks w' = chunks w @ written"
    "list_all (\<lambda>r. \<exists>chunkData \<in> set cds. rowFrom storeId chunkData r) written" by blast
  with cds show ?thesis
    by (intro exI [of _ written]) (auto simp: list_all_iff rowFrom_def)
qed

lemma processCollection_appends:
  assumes "processCollection env storeId collection w = (res, w')"
  shows "\<exists>written. chunks w' = chunks w @ written \<and>
      list_all (\<lambda>r. row_store_id r = storeId \<and> row_content_type r = Collection
                  \<and> row_content_id r = collection_id collection
                  \<and> chunk_text r \<in> set (textChunks (collectionToText env collection))) written"
proof -
  from assms obtain cds where
    run: "storeChunks env storeId cds w = (res, w')" and
    cds: "\<forall>cd \<in> set cds. cd_content_type cd = Collection \<and> cd_content_id cd = collection_id collection
            \<and> cd_text cd \<in> set (textChunks (collectionToText env collection))"
    by (auto simp: processCollection_def Let_def)
  from storeChunks_appends [OF run] obtain written where
    "chunks w' = chunks w @ written"
    "list_all (\<lambda>r. \<exists>chunkData \<in> set cds. rowFrom storeId chunkData r) written" by blast
  with cds show ?thesis
    by (intro exI [of _ written]) (auto simp: list_all_iff rowFrom_def)
qed

lemma list_all_weaken: "list_all P xs \<Longrightarrow> (\<And>x. P x \<Longrightarrow> Q x) \<Longrightarrow> list_all Q xs"
  by (auto simp: list_all_iff)

text \<open>
  Claim C6. Whatever text the formatter yields for a product or a page, every row that
  \<open>processProduct\<close> or \<open>processPage\<close> adds to the table has a text of at most 1500
  code units that is not empty and has a code unit that is not white space. The bound
  rests on the chunker, which is modelled from the spec.
\<close>

theorem stored_chunks_bounded_nonblank:
  "(processProduct env storeId product w = (res, w') \<longrightarrow>
      (\<exists>written. chunks w' = chunks w @ written
         \<and> list_all (\<lambda>r. storableText (chunk_text r)) written))
   \<and> (processPage env storeId page v = (res', v') \<longrightarrow>
      (\<exists>written. chunks v' = chunks v @ written
         \<and> list_all (\<lambda>r. storableText (chunk_text r)) written))"
proof (intro conjI impI)
  assume "processProduct env storeId product w = (res, w')"
  from processProduct_appends [OF this] obtain written where
    a: "chunks w' = chunks w @ written" and
    b: "list_all (\<lambda>r. row_store_id r = storeId \<and> row_content_type r = Product
                  \<and> row_content_id r = product_id product
                  \<and> chunk_text r \<in> set (textChunks (productToText env product))) written"
    by blast
  from b have "list_all (\<lambda>r. storableText (chunk_text r)) written"
    by (rule list_all_weaken) (blast intro: textChunks_storable)
  with a show "\<exists>written. chunks w' = chunks w @ written
         \<and> list_all (\<lambda>r. storableText (chunk_text r)) written" by blast
next
  assume "processPage env storeId page v = (res', v')"
  from processPage_appends [OF this] obtain written where
    a: "chunks v' = chunks v @ written" and
    b: "list_all (\<lambda>r. row_store_id r = storeId \<and> row_content_type r = Page
                  \<and> row_content_id r = page_id page
                  \<and> chunk_text r \<in> set (textChunks (pageToText env page))) written"
    by blast
  from b have "list_all (\<lambda>r. storableText (chunk_text r)) written"
    by (rule list_all_weaken) (blast intro: textChunks_storable)
  with a show "\<exists>written. chunks v' = chunks v @ written
         \<and> list_all (\<lambda>r. storableText (chunk_text r)) written" by blast
qed

text \<open>
  Claim C5. When the insert of a chunk is answered with an error: for code 23505
  \<open>storeChunk\<close> returns normally, with one line on the console and no row added, and the
  loop over the chunks goes on with the rest; for any other error it throws
  ``Failed to store chunk: ...'' and the loop ends there, the rest unwritten.
\<close>

theorem storeChunk_insert_errors:
  assumes "embedText env (cd_text chunkData) = Inr (Some v)"
    and "chunksInsert env (rowOf storeId chunkData v) (chunks w) = Inr (Some err)"
  shows "(err_code err = Some (js ''23505'') \<longrightarrow>
            storeChunk env storeId chunkData w =
              (Inr (), console_log (js ''Skipping duplicate chunk for ''
                                     @ content_type_name (cd_content_type chunkData)
                                     @ js '': '' @ cd_title chunkData) w)
          \<and> storeChunks env storeId (chunkData # rest) w =
              storeChunks env storeId rest
                (console_log (js ''Skipping duplicate chunk for ''
                               @ content_type_name (cd_content_type chunkData)
                               @ js '': '' @ cd_title chunkData) w))
       \<and> (err_code err \<noteq> Some (js ''23505'') \<longrightarrow>
            storeChunk env storeId chunkData w =
              (Inl (new_Error (js ''Failed to store chunk: '' @ err_message err)), w)
          \<and> storeChunks env storeId (chunkData # rest) w =
              (Inl (new_Error (js ''Failed to store chunk: '' @ err_message err)), w))"
  using assms by (simp add: storeChunk_def rowOf_def Let_def)

lemma processProducts_appends:
  assumes "processProducts env storeId w = Some (res, w')"
  shows "\<exists>written. chunks w' = chunks w @ written \<and> list_all (fromCurrentSource env storeId) written"
proof -
  from assms obtain res0 where
    run: "paginate (getProducts env) 250 (processProduct env storeId) None 0
            (console_log (js ''Processing products...'') w) = Some (res0, w')
          \<or> (\<exists>w0 n. paginate (getProducts env) 250 (processProduct env storeId) None 0
            (console_log (js ''Processing products...'') w) = Some (res0, w0)
             \<and> w' = console_log n w0)"
    by (auto simp: processProducts_def split: option.splits sum.splits prod.splits)
  have step: "\<exists>ins. chunks w2 = chunks w1 @ ins \<and> list_all (fromCurrentSource env storeId) ins"
    if "getProducts env 250 c = Inr pg" "r \<in> set (records pg)"
       "processProduct env storeId r w1 = (res1, w2)" for c pg r w1 res1 w2
  proof -
    from processProduct_appends [OF that(3)] obtain written where
      a: "chunks w2 = chunks w1 @ written" and
      b: "list_all (\<lambda>x. row_store_id x = storeId \<and> row_content_type x = Product
                  \<and> row_content_id x = product_id r
                  \<and> chunk_text x \<in> set (textChunks (productToText env r))) written"
      by blast
    from b have "list_all (fromCurrentSource env storeId) written"
      by (rule list_all_weaken) (use that(1,2) in \<open>auto simp: fromCurrentSource_def\<close>)
    with a show ?thesis by blast
  qed
  from run show ?thesis
  proof
    assume "paginate (getProducts env) 250 (processProduct env storeId) None 0
            (console_log (js ''Processing products...'') w) = Some (res0, w')"
    from paginate_appends [OF this, of "fromCurrentSource env storeId"] step
    show ?thesis by simp
  next
    assume "\<exists>w0 n. paginate (getProducts env) 250 (processProduct env storeId) None 0
            (console_log (js ''Processing products...'') w) = Some (res0, w0)
             \<and> w' = console_log n w0"
    then obtain w0 n where p: "paginate (getProducts env) 250 (processProduct env storeId) None 0
            (console_log (js ''Processing products...'') w) = Some (res0, w0)" and w': "w' = console_log n w0"
      by blast
    from paginate_appends [OF p, of "fromCurrentSource env storeId"] step w'
    show ?thesis by simp
  qed
qed

lemma processPages_appends:
  assumes "processPages env storeId w = Some (res, w')"
  shows "\<exists>written. chunks w' = chunks w @ written \<and> list_all (fromCurrentSource env storeId) written"
proof -
  from assms obtain res0 where
    run: "paginate (getPages env) 100 (processPage env storeId) None 0
            (console_log (js ''Processing pages...'') w) = Some (res0, w')
          \<or> (\<exists>w0 n. paginate (getPages env) 100 (processPage env storeId) None 0
            (console_log (js ''Processing pages...'') w) = Some (res0, w0)
             \<and> w' = console_log n w0)"
    by (auto simp: processPages_def split: option.splits sum.splits prod.splits)
  have step: "\<exists>ins. chunks w2 = chunks w1 @ ins \<and> list_all (fromCurrentSource env storeId) ins"
    if "getPages env 100 c = Inr pg" "r \<in> set (records pg)"
       "processPage env storeId r w1 = (res1, w2)" for c pg r w1 res1 w2
  proof -
    from processPage_appends [OF that(3)] obtain written where
      a: "chunks w2 = chunks w1 @ written" and
      b: "list_all (\<lambda>x. row_store_id x = storeId \<and> row_content_type x = Page
                  \<and> row_content_id x = page_id r
                  \<and> chunk_text x \<in> set (textChunks (pageToText env r))) written"
      by blast
    from b have "list_all (fromCurrentSource env storeId) written"
      by (rule list_all_weaken) (use that(1,2) in \<open>auto simp: fromCurrentSource_def\<close>)
    with a show ?thesis by blast
  qed
  from run show ?thesis
  proof
    assume "paginate (getPages env) 100 (processPage env storeId) None 0
            (console_log (js ''Processing pages...'') w) = Some (res0, w')"
    from paginate_appends [OF this, of "fromCurrentSource env storeId"] step
    show ?thesis by simp
  next
    assume "\<exists>w0 n. paginate (getPages env) 100 (processPage env storeId) None 0
            (console_log (js ''Processing pages...'') w) = Some (res0, w0)
             \<and> w' = console_log n w0"
    then obtain w0 n where p: "paginate (getPages env) 100 (processPage env storeId) None 0
            (console_log (js ''Processing pages...'') w) = Some (res0, w0)" and w': "w' = console_log n w0"
      by blast
    from paginate_appends [OF p, of "fromCurrentSource env storeId"] step w'
    show ?thesis by simp
  qed
qed

lemma processCollections_appends:
  assumes "processCollections env storeId w = Some (res, w')"
  shows "\<exists>written. chunks w' = chunks w @ written \<and> list_all (fromCurrentSource env storeId) written"
proof -
  from assms obtain res0 where
    run: "paginate (getCollections env) 100 (processCollection env storeId) None 0
            (console_log (js ''Processing collections...'') w) = Some (res0, w')
          \<or> (\<exists>w0 n. paginate (getCollections env) 100 (processCollection env storeId) None 0
            (console_log (js ''Processing collections...'') w) = Some (res0, w0)
             \<and> w' = console_log n w0)"
    by (auto simp: processCollections_def split: option.splits sum.splits prod.splits)
  have step: "\<exists>ins. chunks w2 = chunks w1 @ ins \<and> list_all (fromCurrentSource env storeId) ins"
    if "getCollections env 100 c = Inr pg" "r \<in> set (records pg)"
       "processCollection env storeId r w1 = (res1, w2)" for c pg r w1 res1 w2
  proof -
    from processCollection_appends [OF that(3)] obtain written where
      a: "chunks w2 = chunks w1 @ written" and
      b: "list_all (\<lambda>x. row_store_id x = storeId \<and> row_content_type x = Collection
                  \<and> row_content_id x = collection_id r
                  \<and> chunk_text x \<in> set (textChunks (collectionToText env r))) written"
      by blast
    from b have "list_all (fromCurrentSource env storeId) written"
      by (rule list_all_weaken) (use that(1,2) in \<open>auto simp: fromCurrentSource_def\<close>)
    with a show ?thesis by blast
  qed
  from run show ?thesis
  proof
    assume "paginate (getCollections env) 100 (processCollection env storeId) None 0
            (console_log (js ''Processing collections...'') w) = Some (res0, w')"
    from paginate_appends [OF this, of "fromCurrentSource env storeId"] step
    show ?thesis by simp
  next
    assume "\<exists>w0 n. paginate (getCollections env) 100 (processCollection env storeId) None 0
            (console_log (js ''Processing collections...'') w) = Some (res0, w0)
             \<and> w' = console_log n w0"
    then obtain w0 n where p: "paginate (getCollections env) 100 (processCollection env storeId) None 0
            (console_log (js ''Processing collections...'') w) = Some (res0, w0)" and w': "w' = console_log n w0"
      by blast
    from paginate_appends [OF p, of "fromCurrentSource env storeId"] step w'
    show ?thesis by simp
  qed
qed

lemma clearExistingChunks_done:
  assumes "clearExistingChunks env storeId w = (Inr u, w1)"
  shows "chunks w1 = filter (\<lambda>r. row_store_id r \<noteq> storeId) (chunks w)"
  using assms by (auto simp: clearExistingChunks_def split: sum.splits option.splits)

text \<open>
  Claim C4. A run of \<open>processAllData\<close> that completes leaves, of the rows the store
  held before, exactly those of other stores, followed by rows written in this run,
  each for this store and each a chunk of the text of a record the source served now.
  When the initial delete is answered with an error, the run ends at once with
  ``Failed to clear existing chunks: ...'' and the chunk table as it was.
\<close>

theorem processAllData_full_replace:
  "(processAllData env storeId w = Some (Inr (), w') \<longrightarrow>
      (\<exists>written. chunks w' = filter (\<lambda>r. row_store_id r \<noteq> storeId) (chunks w) @ written
         \<and> list_all (fromCurrentSource env storeId) written))
   \<and> (chunksDelete env storeId (chunks w) = Inr (Some err) \<longrightarrow>
        processAllData env storeId w =
          Some (Inl (new_Error (js ''Failed to clear existing chunks: '' @ err_message err)),
                console_log (js ''Starting Shopify data processing...'') w))"
proof (intro conjI impI)
  assume run: "processAllData env storeId w = Some (Inr (), w')"
  let ?w0 = "console_log (js ''Starting Shopify data processing...'') w"
  from run obtain u1 w1 where c1: "clearExistingChunks env storeId ?w0 = (Inr u1, w1)"
    by (auto simp: processAllData_def split: prod.splits sum.splits)
  from run c1 obtain u2 w2 where c2: "processProducts env storeId w1 = Some (Inr u2, w2)"
    by (auto simp: processAllData_def split: prod.splits sum.splits option.splits)
  from run c1 c2 obtain u3 w3 where c3: "processPages env storeId w2 = Some (Inr u3, w3)"
    by (auto simp: processAllData_def split: prod.splits sum.splits option.splits)
  from run c1 c2 c3 obtain u4 w4 where c4: "processCollections env storeId w3 = Some (Inr u4, w4)"
    and w': "w' = console_log (js ''Shopify data processing completed.'') w4"
    by (auto simp: processAllData_def split: prod.splits sum.splits option.splits)
  from clearExistingChunks_done [OF c1]
  have k1: "chunks w1 = filter (\<lambda>r. row_store_id r \<noteq> storeId) (chunks w)" by simp
  from processProducts_appends [OF c2] obtain a where
    k2: "chunks w2 = chunks w1 @ a" "list_all (fromCurrentSource env storeId) a" by blast
  from processPages_appends [OF c3] obtain b where
    k3: "chunks w3 = chunks w2 @ b" "list_all (fromCurrentSource env storeId) b" by blast
  from processCollections_appends [OF c4] obtain c where
    k4: "chunks w4 = chunks w3 @ c" "list_all (fromCurrentSource env storeId) c" by blast
  show "\<exists>written. chunks w' = filter (\<lambda>r. row_store_id r \<noteq> storeId) (chunks w) @ written
         \<and> list_all (fromCurrentSource env storeId) written"
    using k1 k2 k3 k4 w' by (intro exI [of _ "a @ b @ c"]) simp
next
  assume "chunksDelete env storeId (chunks w) = Inr (Some err)"
  then show "processAllData env storeId w =
          Some (Inl (new_Error (js ''Failed to clear existing chunks: '' @ err_message err)),
                console_log (js ''Starting Shopify data processing...'') w)"
    by (simp add: processAllData_def clearExistingChunks_def)
qed

lemma demoShop_chunks: "textChunks (productToText demoShop blueMug) = [js ''Mug 12.00 USD'']"
  by (simp add: textChunks_def chunkText.simps trim_def js_whitespace_def js_def demoShop_def
      quietCollaborators_def)

lemma demoShop_product:
  "processProduct demoShop (js ''s1'') blueMug w =
     (Inr (), w\<lparr>chunks := chunks w @
        [\<lparr>row_store_id = js ''s1'', row_content_type = Product, row_content_id = js ''p1'',
          row_title = js ''Blue Mug'', chunk_text = js ''Mug 12.00 USD'', row_embedding = [1],
          row_metadata = ProductMetadata (js ''blue-mug'') 1 0 1\<rparr>]\<rparr>)"
  apply (simp add: processProduct_def demoShop_chunks Let_def)
  apply (simp add: storeChunk_def Let_def demoShop_def quietCollaborators_def blueMug_def)
  done

lemma demoShop_products:
  "\<exists>w'. processProducts demoShop (js ''s1'') w = Some (Inr (), w') \<and>
     chunks w' = chunks w @
        [\<lparr>row_store_id = js ''s1'', row_content_type = Product, row_content_id = js ''p1'',
          row_title = js ''Blue Mug'', chunk_text = js ''Mug 12.00 USD'', row_embedding = [1],
          row_metadata = ProductMetadata (js ''blue-mug'') 1 0 1\<rparr>]"
proof -
  have g1: "getProducts demoShop 250 None =
      Inr \<lparr>records = [blueMug], hasNextPage = True, endCursor = Some (js ''c1'')\<rparr>"
    by (simp add: demoShop_def quietCollaborators_def)
  have g2: "getProducts demoShop 250 (Some (js ''c1'')) =
      Inr \<lparr>records = [], hasNextPage = False, endCursor = None\<rparr>"
    by (simp add: demoShop_def quietCollaborators_def)
  show ?thesis
    by (simp add: processProducts_def paginate.simps g1 g2 demoShop_product console_log_def)
qed

lemma demoShop_pages:
  "\<exists>w'. processPages demoShop (js ''s1'') w = Some (Inr (), w') \<and> chunks w' = chunks w"
proof -
  have g: "getPages demoShop 100 None = Inr \<lparr>records = [], hasNextPage = False, endCursor = None\<rparr>"
    by (simp add: demoShop_def quietCollaborators_def)
  show ?thesis
    by (simp add: processPages_def paginate.simps g console_log_def)
qed

lemma demoShop_collections:
  "\<exists>w'. processCollections demoShop (js ''s1'') w = Some (Inr (), w') \<and> chunks w' = chunks w"
proof -
  have g: "getCollections demoShop 100 None = Inr \<lparr>records = [], hasNextPage = False, endCursor = None\<rparr>"
    by (simp add: demoShop_def quietCollaborators_def)
  show ?thesis
    by (simp add: processCollections_def paginate.simps g console_log_def)
qed

lemma demoShop_clear:
  "\<exists>w'. clearExistingChunks demoShop (js ''s1'') (console_log l staleWorld) = (Inr (), w')
      \<and> chunks w' = [staleRow ''s2'' ''theirs'']"
  by (simp add: clearExistingChunks_def demoShop_def quietCollaborators_def staleWorld_def
      console_log_def staleRow_def js_def)

lemma demoShop_run:
  "\<exists>w'. processAllData demoShop (js ''s1'') staleWorld = Some (Inr (), w') \<and>
     chunks w' = [staleRow ''s2'' ''theirs'',
        \<lparr>row_store_id = js ''s1'', row_content_type = Product, row_content_id = js ''p1'',
          row_title = js ''Blue Mug'', chunk_text = js ''Mug 12.00 USD'', row_embedding = [1],
          row_metadata = ProductMetadata (js ''blue-mug'') 1 0 1\<rparr>]"
proof -
  obtain w1 where c1: "clearExistingChunks demoShop (js ''s1'')
        (console_log (js ''Starting Shopify data processing...'') staleWorld) = (Inr (), w1)"
      and k1: "chunks w1 = [staleRow ''s2'' ''theirs'']"
    using demoShop_clear by blast
  obtain w2 where c2: "processProducts demoShop (js ''s1'') w1 = Some (Inr (), w2)"
      and k2: "chunks w2 = chunks w1 @
        [\<lparr>row_store_id = js ''s1'', row_content_type = Product, row_content_id = js ''p1'',
          row_title = js ''Blue Mug'', chunk_text = js ''Mug 12.00 USD'', row_embedding = [1],
          row_metadata = ProductMetadata (js ''blue-mug'') 1 0 1\<rparr>]"
    using demoShop_products by blast
  obtain w3 where c3: "processPages demoShop (js ''s1'') w2 = Some (Inr (), w3)"
      and k3: "chunks w3 = chunks w2"
    using demoShop_pages by blast
  obtain w4 where c4: "processCollections demoShop (js ''s1'') w3 = Some (Inr (), w4)"
      and k4: "chunks w4 = chunks w3"
    using demoShop_collections by blast
  show ?thesis
    by (simp add: processAllData_def c1 c2 c3 c4 k1 k2 k3 k4)
qed

theorem processAllData_full_replace_witness:
  "(\<exists>w' written.
       processAllData demoShop (js ''s1'') staleWorld = Some (Inr (), w')
     \<and> chunks w' = [staleRow ''s2'' ''theirs''] @ written
     \<and> list_all (fromCurrentSource demoShop (js ''s1'')) written)
   \<and> processAllData brokenDelete (js ''s1'') staleWorld =
        Some (Inl (new_Error (js ''Failed to clear existing chunks: '' @ js ''permission denied'')),
              console_log (js ''Starting Shopify data processing...'') staleWorld)"
proof -
  obtain w' where run: "processAllData demoShop (js ''s1'') staleWorld = Some (Inr (), w')"
    using demoShop_run by blast
  have old: "filter (\<lambda>r. row_store_id r \<noteq> js ''s1'') (chunks staleWorld) = [staleRow ''s2'' ''theirs'']"
    by (simp add: staleWorld_def staleRow_def js_def)
  from processAllData_full_replace [of demoShop "js ''s1''" staleWorld w'] run old
  have first: "\<exists>written. chunks w' = [staleRow ''s2'' ''theirs''] @ written
     \<and> list_all (fromCurrentSource demoShop (js ''s1'')) written"
    by simp
  have del: "chunksDelete brokenDelete (js ''s1'') (chunks staleWorld) =
      Inr (Some \<lparr>is_Error = False, err_message = js ''permission denied'',
                 err_code = Some (js ''42501'')\<rparr>)"
    by (simp add: brokenDelete_def)
  from processAllData_full_replace [of brokenDelete "js ''s1''" staleWorld] del
  have second: "processAllData brokenDelete (js ''s1'') staleWorld =
        Some (Inl (new_Error (js ''Failed to clear existing chunks: '' @ js ''permission denied'')),
              console_log (js ''Starting Shopify data processing...'') staleWorld)"
    by simp
  from run first second show ?thesis by blast
qed

lemma letter_and_space: "\<not> js_whitespace 0x0041" "js_whitespace 0x0020"
  by (simp_all add: js_whitespace_def)

lemma longText_chunks:
  "textChunks longText = [replicate 1500 0x0041, replicate 100 0x0041 @ replicate 1400 0x0020]"
proof -
  have c1: "chunkText longText 1500 =
      replicate 1500 0x0041 # chunkText (replicate 100 0x0041 @ replicate 1500 0x0020) 1500"
    by (subst chunkText.simps) (simp add: longText_def)
  have c2: "chunkText (replicate 100 0x0041 @ replicate 1500 0x0020) 1500 =
      (replicate 100 0x0041 @ replicate 1400 0x0020) # chunkText (replicate 100 0x0020) 1500"
    by (subst chunkText.simps) simp
  have c3: "chunkText (replicate 100 0x0020) 1500 = [replicate 100 (0x0020 :: code_unit)]"
    by (subst chunkText.simps, simp, subst chunkText.simps, simp)
  have t1: "trim (replicate 1500 0x0041) = replicate 1500 0x0041"
    by (simp add: trim_def letter_and_space dropWhile_replicate)
  have t2: "trim (replicate 100 0x0041 @ replicate 1400 0x0020) = replicate 100 0x0041"
    by (simp add: trim_def letter_and_space dropWhile_replicate dropWhile_append)
  have t3: "trim (replicate 100 0x0020) = []"
    by (simp add: trim_def letter_and_space dropWhile_replicate)
  show ?thesis
    by (simp add: textChunks_def c1 c2 c3 t1 t2 t3)
qed

lemma longShop_product:
  "\<exists>w'. processProduct longShop (js ''s1'') blueMug emptyWorld = (Inr (), w')
     \<and> map chunk_text (chunks w') =
         [replicate 1500 0x0041, replicate 100 0x0041 @ replicate 1400 0x0020]"
proof -
  have t: "textChunks (productToText longShop blueMug) =
      [replicate 1500 0x0041, replicate 100 0x0041 @ replicate 1400 0x0020]"
    by (simp add: longShop_def longText_chunks)
  show ?thesis
    apply (simp add: processProduct_def t Let_def)
    apply (simp add: storeChunk_def Let_def longShop_def quietCollaborators_def emptyWorld_def)
    done
qed

lemma longShop_page:
  "\<exists>w'. processPage longShop (js ''s1'') aboutPage emptyWorld = (Inr (), w')
     \<and> map chunk_text (chunks w') =
         [replicate 1500 0x0041, replicate 100 0x0041 @ replicate 1400 0x0020]"
proof -
  have t: "textChunks (pageToText longShop aboutPage) =
      [replicate 1500 0x0041, replicate 100 0x0041 @ replicate 1400 0x0020]"
    by (simp add: longShop_def longText_chunks)
  show ?thesis
    apply (simp add: processPage_def t Let_def)
    apply (simp add: storeChunk_def Let_def longShop_def quietCollaborators_def emptyWorld_def)
    done
qed

theorem stored_chunks_bounded_nonblank_witness:
  "(\<exists>w'. processProduct longShop (js ''s1'') blueMug emptyWorld = (Inr (), w')
      \<and> map (\<lambda>r. length (chunk_text r)) (chunks w') = [1500, 1500]
      \<and> list_all (\<lambda>r. storableText (chunk_text r)) (chunks w'))
   \<and> (\<exists>w'. processPage longShop (js ''s1'') aboutPage emptyWorld = (Inr (), w')
      \<and> map (\<lambda>r. length (chunk_text r)) (chunks w') = [1500, 1500]
      \<and> list_all (\<lambda>r. storableText (chunk_text r)) (chunks w'))"
proof -
  obtain w1 where p1: "processProduct longShop (js ''s1'') blueMug emptyWorld = (Inr (), w1)"
    and t1: "map chunk_text (chunks w1) =
         [replicate 1500 0x0041, replicate 100 0x0041 @ replicate 1400 0x0020]"
    using longShop_product by (elim exE conjE)
  obtain w2 where p2: "processPage longShop (js ''s1'') aboutPage emptyWorld = (Inr (), w2)"
    and t2: "map chunk_text (chunks w2) =
         [replicate 1500 0x0041, replicate 100 0x0041 @ replicate 1400 0x0020]"
    using longShop_page by (elim exE conjE)
  have e: "chunks emptyWorld = []" by (simp add: emptyWorld_def)
  from stored_chunks_bounded_nonblank [of longShop "js ''s1''" blueMug emptyWorld "Inr ()" w1] p1
  obtain written1 where "chunks w1 = chunks emptyWorld @ written1"
    "list_all (\<lambda>r. storableText (chunk_text r)) written1" by blast
  with e have s1: "list_all (\<lambda>r. storableText (chunk_text r)) (chunks w1)" by simp
  from stored_chunks_bounded_nonblank [of longShop "js ''s1''" _ _ _ _ aboutPage emptyWorld "Inr ()" w2] p2
  obtain written2 where "chunks w2 = chunks emptyWorld @ written2"
    "list_all (\<lambda>r. storableText (chunk_text r)) written2" by blast
  with e have s2: "list_all (\<lambda>r. storableText (chunk_text r)) (chunks w2)" by simp
  have "map length (map chunk_text (chunks w1)) = [1500, 1500]"
    unfolding t1 by simp
  then have l1: "map (\<lambda>r. length (chunk_text r)) (chunks w1) = [1500, 1500]"
    by (simp add: comp_def)
  have "map length (map chunk_text (chunks w2)) = [1500, 1500]"
    unfolding t2 by simp
  then have l2: "map (\<lambda>r. length (chunk_text r)) (chunks w2) = [1500, 1500]"
    by (simp add: comp_def)
  show ?thesis
  proof (intro conjI)
    show "\<exists>w'. processProduct longShop (js ''s1'') blueMug emptyWorld = (Inr (), w')
      \<and> map (\<lambda>r. length (chunk_text r)) (chunks w') = [1500, 1500]
      \<and> list_all (\<lambda>r. storableText (chunk_text r)) (chunks w')"
      using p1 l1 s1 by (intro exI [of _ w1] conjI)
    show "\<exists>w'. processPage longShop (js ''s1'') aboutPage emptyWorld = (Inr (), w')
      \<and> map (\<lambda>r. length (chunk_text r)) (chunks w') = [1500, 1500]
      \<and> list_all (\<lambda>r. storableText (chunk_text r)) (chunks w')"
      using p2 l2 s2 by (intro exI [of _ w2] conjI)
  qed
qed

theorem storeChunk_insert_errors_witness:
  "storeChunks pickyStore (js ''s1'') [chunkOf ''dup'', chunkOf ''ok''] emptyWorld =
     (Inr (), \<lparr>chunks = [rowOf (js ''s1'') (chunkOf ''ok'') [1]],
               console = [js ''Skipping duplicate chunk for '' @ js ''product'' @ js '': '' @ js ''Mug'']\<rparr>)
   \<and> storeChunks pickyStore (js ''s1'') [chunkOf ''bad'', chunkOf ''ok''] emptyWorld =
     (Inl (new_Error (js ''Failed to store chunk: '' @ js ''null value in column'')), emptyWorld)"
proof -
  have emb: "embedText pickyStore t = Inr (Some [1])" for t
    by (simp add: pickyStore_def)
  have ne: "js ''ok'' \<noteq> js ''dup''" "js ''ok'' \<noteq> js ''bad''" "js ''bad'' \<noteq> js ''dup''"
    "js ''23502'' \<noteq> js ''23505''"
    by (simp_all add: js_def)
  have ins1: "chunksInsert pickyStore (rowOf (js ''s1'') (chunkOf ''dup'') [1]) (chunks emptyWorld) =
      Inr (Some duplicateKey)"
    by (simp add: pickyStore_def rowOf_def chunkOf_def)
  have ins2: "chunksInsert pickyStore (rowOf (js ''s1'') (chunkOf ''bad'') [1]) (chunks emptyWorld) =
      Inr (Some notNull)"
    by (simp add: pickyStore_def rowOf_def chunkOf_def ne)
  have ins3: "chunksInsert pickyStore (rowOf (js ''s1'') (chunkOf ''ok'') [1]) t = Inr None" for t
    by (simp add: pickyStore_def rowOf_def chunkOf_def ne)
  have ok: "storeChunks pickyStore (js ''s1'') [chunkOf ''ok''] w =
      (Inr (), w\<lparr>chunks := chunks w @ [rowOf (js ''s1'') (chunkOf ''ok'') [1]]\<rparr>)" for w
    using ins3 [of "chunks w"] by (simp add: storeChunk_def emb Let_def rowOf_def)
  from storeChunk_insert_errors [OF emb ins1, of "[chunkOf ''ok'']"]
  have a: "storeChunks pickyStore (js ''s1'') [chunkOf ''dup'', chunkOf ''ok''] emptyWorld =
      storeChunks pickyStore (js ''s1'') [chunkOf ''ok'']
        (console_log (js ''Skipping duplicate chunk for ''
                       @ content_type_name (cd_content_type (chunkOf ''dup''))
                       @ js '': '' @ cd_title (chunkOf ''dup'')) emptyWorld)"
    by (simp add: duplicateKey_def)
  from storeChunk_insert_errors [OF emb ins2, of "[chunkOf ''ok'']"]
  have b: "storeChunks pickyStore (js ''s1'') [chunkOf ''bad'', chunkOf ''ok''] emptyWorld =
      (Inl (new_Error (js ''Failed to store chunk: '' @ js ''null value in column'')), emptyWorld)"
    by (simp add: notNull_def ne)
  show ?thesis
    unfolding a b ok
    by (simp add: console_log_def emptyWorld_def chunkOf_def content_type_name_def)
qed

section \<open>Properties of the response orchestrator\<close>

lemma resolveTenant_return:
  "resolveTenant env toNumber = Return r \<Longrightarrow> \<not> success r \<and> result_error r \<noteq> None"
  by (auto simp: resolveTenant_def Let_def
      split: sum.splits option.splits list.splits if_splits prod.splits)

lemma retrieveMatches_return:
  "retrieveMatches env dataSource toNumber messageText = Return r \<Longrightarrow>
   \<not> success r \<and> result_error r \<noteq> None"
  by (auto simp: retrieveMatches_def split: sum.splits option.splits if_splits)

lemma generateReply_return:
  assumes "generateReply env fromNumber toNumber messageText w = Return r"
  shows "\<not> success r \<and> result_error r \<noteq> None"
proof (cases "resolveTenant env toNumber")
  case (Throw e)
  with assms show ?thesis by (simp add: generateReply_def)
next
  case (Return r')
  with assms have "r' = r" by (simp add: generateReply_def)
  with Return show ?thesis by (simp add: resolveTenant_return)
next
  case (Continue tenant)
  obtain dataSource customSystemPrompt auth_token origin where
    t: "tenant = (dataSource, customSystemPrompt, auth_token, origin)"
    by (cases tenant)
  show ?thesis
  proof (cases "retrieveMatches env dataSource toNumber messageText")
    case (Throw e)
    with assms Continue t show ?thesis by (simp add: generateReply_def)
  next
    case (Return r')
    with assms Continue t have "r' = r" by (simp add: generateReply_def)
    with Return show ?thesis by (simp add: retrieveMatches_return)
  next
    case m: (Continue matches)
    from assms Continue t m show ?thesis
      by (auto simp: generateReply_def split: sum.splits list.splits if_splits)
  qed
qed

lemma sendAndPersist_result:
  "sendAndPersist env fromNumber toNumber messageId reply auth_token origin w = (Inr r, w') \<Longrightarrow>
   success r \<or> result_error r \<noteq> None"
  by (auto simp: sendAndPersist_def persistResponse_def
      split: sum.splits if_splits prod.splits)

text \<open>
  Claim C8. The promise of \<open>generateAutoResponse\<close> is always fulfilled, never rejected:
  for every behaviour of the collaborators, throwing included, it yields a result
  record, and a result that is not a success carries an error text. When the body of
  the \<open>try\<close> throws, the result has \<open>success = False\<close> and the message of the
  exception (``Unknown error'' for a value that is no Error).
\<close>

theorem generateAutoResponse_never_rejects:
  "\<exists>r. fst (generateAutoResponse env fromNumber toNumber messageText messageId w) = Inr r
     \<and> (success r \<or> result_error r \<noteq> None)
     \<and> (\<forall>e. fst (generateAutoResponse_try env fromNumber toNumber messageText messageId w) = Inl e \<longrightarrow>
          r = \<lparr>success = False, response = None,
               result_error = Some (if is_Error e then err_message e else js ''Unknown error''),
               noDocuments = None, sent = None\<rparr>)"
proof (cases "generateAutoResponse_try env fromNumber toNumber messageText messageId w")
  case (Pair outcome w')
  show ?thesis
  proof (cases outcome)
    case (Inl e)
    with Pair show ?thesis by (simp add: generateAutoResponse_def)
  next
    case (Inr r)
    have "success r \<or> result_error r \<noteq> None"
    proof (cases "generateReply env fromNumber toNumber messageText w")
      case (Throw e)
      with Pair Inr show ?thesis by (simp add: generateAutoResponse_try_def)
    next
      case (Return r')
      with Pair Inr have "r' = r" by (simp add: generateAutoResponse_try_def)
      with Return generateReply_return show ?thesis by blast
    next
      case (Continue x)
      obtain reply auth_token origin where x: "x = (reply, auth_token, origin)" by (cases x)
      from Pair Inr Continue x
      have "sendAndPersist env fromNumber toNumber messageId reply auth_token origin w = (Inr r, w')"
        by (simp add: generateAutoResponse_try_def)
      then show ?thesis by (rule sendAndPersist_result)
    qed
    with Pair Inr show ?thesis by (simp add: generateAutoResponse_def)
  qed
qed

lemma error_replaceLaterRows [simp]: "error (replaceLaterRows f reply) = error reply"
  by (simp add: replaceLaterRows_def)

lemma retry_loop_replaceLaterRows:
  "retry_loop (\<lambda>n. case q n of Inl e \<Rightarrow> Inl e | Inr reply \<Rightarrow> Inr (replaceLaterRows f reply))
      maxRetries attempt made waited =
   (let out = retry_loop q maxRetries attempt made waited
    in out\<lparr>returned := (case returned out of Inl e \<Rightarrow> Inl e
                                             | Inr reply \<Rightarrow> Inr (replaceLaterRows f reply))\<rparr>)"
proof (induction q maxRetries attempt made waited rule: retry_loop.induct)
  case (1 queryFn maxRetries attempt made waited)
  show ?case
  proof (cases "attempt \<le> maxRetries")
    case False
    then show ?thesis
      by (subst retry_loop.simps, subst (2) retry_loop.simps) (simp add: Let_def)
  next
    case True
    show ?thesis
    proof (cases "queryFn made")
      case (Inl e)
      with True show ?thesis
        by (subst retry_loop.simps, subst (2) retry_loop.simps) (simp add: Let_def)
    next
      case (Inr reply)
      show ?thesis
      proof (cases "error reply = None")
        case ok: True
        with True Inr show ?thesis
          by (subst retry_loop.simps, subst (2) retry_loop.simps) (simp add: Let_def)
      next
        case err: False
        let ?q' = "\<lambda>n. case queryFn n of Inl e \<Rightarrow> Inl e | Inr reply \<Rightarrow> Inr (replaceLaterRows f reply)"
        let ?ws = "if attempt < maxRetries then waited @ [attempt * 1000] else waited"
        have L: "retry_loop ?q' maxRetries attempt made waited =
                 retry_loop ?q' maxRetries (attempt + 1) (Suc made) ?ws"
          using True Inr err
          by (simp add: retry_loop.simps [of ?q' maxRetries attempt made waited] del: not_None_eq)
        have R: "retry_loop queryFn maxRetries attempt made waited =
                 retry_loop queryFn maxRetries (attempt + 1) (Suc made) ?ws"
          using True Inr err
          by (simp add: retry_loop.simps [of queryFn maxRetries attempt made waited] del: not_None_eq)
        show ?thesis
          unfolding L R by (rule 1 [OF True Inr err])
      qed
    qed
  qed
qed

lemma resolveTenant_withLaterRows:
  "resolveTenant (withLaterRows f env) toNumber = resolveTenant env toNumber"
proof -
  have q: "phoneMappingQuery (withLaterRows f env) toNumber =
      (\<lambda>n. case phoneMappingQuery env toNumber n of
              Inl e \<Rightarrow> Inl e | Inr reply \<Rightarrow> Inr (replaceLaterRows f reply))"
    by (simp add: withLaterRows_def)
  have d: "getDataSourceForPhone (withLaterRows f env) = getDataSourceForPhone env"
    by (simp add: withLaterRows_def)
  show ?thesis
    unfolding resolveTenant_def q d retrySupabaseQuery_def retry_loop_replaceLaterRows
    by (auto simp: Let_def replaceLaterRows_def split: sum.splits option.splits list.splits)
qed

lemma withLaterRows_fields:
  "embedText (withLaterRows f env) = embedText env"
  "match_documents (withLaterRows f env) = match_documents env"
  "shopifyChunksQuery (withLaterRows f env) = shopifyChunksQuery env"
  "getDataSourceForPhone (withLaterRows f env) = getDataSourceForPhone env"
  "getShopifyStoreForPhoneNumber (withLaterRows f env) = getShopifyStoreForPhoneNumber env"
  "getFilesForPhoneNumber (withLaterRows f env) = getFilesForPhoneNumber env"
  "messagesSelect (withLaterRows f env) = messagesSelect env"
  "messagesUpdate (withLaterRows f env) = messagesUpdate env"
  "messagesInsert (withLaterRows f env) = messagesInsert env"
  "chatCompletion (withLaterRows f env) = chatCompletion env"
  "sendWhatsAppMessage (withLaterRows f env) = sendWhatsAppMessage env"
  "clock (withLaterRows f env) = clock env"
  by (simp_all add: withLaterRows_def)

lemma generateReply_withLaterRows:
  "generateReply (withLaterRows f env) fromNumber toNumber messageText w =
   generateReply env fromNumber toNumber messageText w"
  unfolding generateReply_def resolveTenant_withLaterRows retrieveMatches_def
    retrieveRelevantShopifyChunks_def fetchHistoryRows_def withLaterRows_fields
  by (rule refl)

lemma sendAndPersist_withLaterRows:
  "sendAndPersist (withLaterRows f env) = sendAndPersist env"
  unfolding sendAndPersist_def persistResponse_def markResponse_def insertMessage_def
    withLaterRows_fields
  by (rule refl)

lemma resolveTenant_first_row:
  assumes "getDataSourceForPhone env toNumber = Inr dataSource" and "truthy dataSource"
    and "returned (retrySupabaseQuery (phoneMappingQuery env toNumber) 3) = Inr reply"
    and "error reply = None" and "data reply = Some (first # others)"
  shows "resolveTenant env toNumber =
     (if \<not> truthy (mapping_auth_token first) \<or> \<not> truthy (mapping_origin first) then
        Return \<lparr>success = False, response = None,
                result_error = Some (js ''No WhatsApp API credentials found. Please set credentials in the Configuration tab.''),
                noDocuments = None, sent = None\<rparr>
      else Continue (string_of dataSource, mapping_system_prompt first,
                     string_of (mapping_auth_token first), string_of (mapping_origin first)))"
  by (simp add: resolveTenant_def assms Let_def)

lemma generateAutoResponse_withLaterRows:
  "generateAutoResponse (withLaterRows f env) fromNumber toNumber messageText messageId w =
     generateAutoResponse env fromNumber toNumber messageText messageId w"
  unfolding generateAutoResponse_def generateAutoResponse_try_def
      generateReply_withLaterRows sendAndPersist_withLaterRows
  by (rule refl)

text \<open>
  Claim C10. Replacing the rows after the first in every reply of the mapping lookup, by
  any rows whatever, changes neither the result nor the writes of
  \<open>generateAutoResponse\<close>. And when the lookup returns rows, the first of them is the
  one used. The credentials check is on its token and origin: if either is missing the
  run ends with the credentials error and writes nothing. Otherwise the language model
  is called with a system message that begins with its prompt (the default opening
  when it has none), and the outcome of the run is the outcome of sending the model's
  reply with its token and its origin.
\<close>

theorem only_first_mapping_row_matters:
  "generateAutoResponse (withLaterRows f env) fromNumber toNumber messageText messageId w =
     generateAutoResponse env fromNumber toNumber messageText messageId w
   \<and> (getDataSourceForPhone env toNumber = Inr dataSource \<and> truthy dataSource
      \<and> returned (retrySupabaseQuery (phoneMappingQuery env toNumber) 3) = Inr reply
      \<and> error reply = None \<and> data reply = Some (first # others) \<longrightarrow>
        (\<not> truthy (mapping_auth_token first) \<or> \<not> truthy (mapping_origin first) \<longrightarrow>
           generateAutoResponse env fromNumber toNumber messageText messageId w =
             (Inr \<lparr>success = False, response = None,
                   result_error = Some (js ''No WhatsApp API credentials found. Please set credentials in the Configuration tab.''),
                   noDocuments = None, sent = None\<rparr>, w))
      \<and> (truthy (mapping_auth_token first) \<and> truthy (mapping_origin first)
          \<and> retrieveMatches env (string_of dataSource) toNumber messageText = Continue matches
          \<and> fetchHistoryRows env fromNumber w = Inr historyRows
          \<and> chatCompletion env
               ([\<lparr>role = System,
                   content =
                     (if truthy (mapping_system_prompt first)
                      then string_of (mapping_system_prompt first)
                      else js ''You are a helpful ''
                           @ (if string_of dataSource = js ''shopify'' then js ''Shopify store''
                              else js ''WhatsApp'')
                           @ js '' assistant.'')
                     @ [0x000A, 0x000A] @ baseRules (string_of dataSource)
                     @ [0x000A, 0x000A] @ js ''CONTEXT:'' @ [0x000A]
                     @ (if joinWith [0x000A, 0x000A] (map chunk matches) \<noteq> []
                        then joinWith [0x000A, 0x000A] (map chunk matches)
                        else js ''No relevant context found in the documents.'')\<rparr>]
                @ lastTen (buildHistory historyRows)
                @ [\<lparr>role = User, content = messageText\<rparr>])
             = Inr (choice # choices)
          \<and> truthy choice \<longrightarrow>
           generateAutoResponse env fromNumber toNumber messageText messageId w =
             (case sendWhatsAppMessage env fromNumber (string_of choice)
                     (string_of (mapping_auth_token first)) (string_of (mapping_origin first)) of
                Inl e \<Rightarrow>
                  (Inr \<lparr>success = False, response = None,
                        result_error = Some (if is_Error e then err_message e else js ''Unknown error''),
                        noDocuments = None, sent = None\<rparr>, w)
              | Inr sendResult \<Rightarrow>
                  (case (if send_success sendResult
                         then persistResponse env fromNumber toNumber messageId (string_of choice) w
                         else (case markResponse env messageId False (clock env 0) w of
                                 (Inl e, w') \<Rightarrow> (Inl e, w')
                               | (Inr u, w') \<Rightarrow>
                                   (Inr \<lparr>success = False, response = Some (string_of choice),
                                         result_error =
                                           Some (js ''Generated response but failed to send: ''
                                                 @ (case send_error sendResult of
                                                      None \<Rightarrow> js ''undefined'' | Some msg \<Rightarrow> msg)),
                                         noDocuments = None, sent = Some False\<rparr>, w'))) of
                     (Inl e, w') \<Rightarrow>
                       (Inr \<lparr>success = False, response = None,
                             result_error = Some (if is_Error e then err_message e else js ''Unknown error''),
                             noDocuments = None, sent = None\<rparr>, w')
                   | (Inr r, w') \<Rightarrow> (Inr r, w')))))"
proof (intro conjI impI; (elim conjE)?)
  show "generateAutoResponse (withLaterRows f env) fromNumber toNumber messageText messageId w =
     generateAutoResponse env fromNumber toNumber messageText messageId w"
    by (rule generateAutoResponse_withLaterRows)
next
  assume a: "getDataSourceForPhone env toNumber = Inr dataSource" "truthy dataSource"
    "returned (retrySupabaseQuery (phoneMappingQuery env toNumber) 3) = Inr reply"
    "error reply = None" "data reply = Some (first # others)"
    and c: "\<not> truthy (mapping_auth_token first) \<or> \<not> truthy (mapping_origin first)"
  from c show "generateAutoResponse env fromNumber toNumber messageText messageId w =
             (Inr \<lparr>success = False, response = None,
                   result_error = Some (js ''No WhatsApp API credentials found. Please set credentials in the Configuration tab.''),
                   noDocuments = None, sent = None\<rparr>, w)"
    by (simp add: generateAutoResponse_def generateAutoResponse_try_def generateReply_def
        resolveTenant_first_row [OF a])
next
  assume a: "getDataSourceForPhone env toNumber = Inr dataSource" "truthy dataSource"
    "returned (retrySupabaseQuery (phoneMappingQuery env toNumber) 3) = Inr reply"
    "error reply = None" "data reply = Some (first # others)"
    and c: "truthy (mapping_auth_token first)" "truthy (mapping_origin first)"
    and m: "retrieveMatches env (string_of dataSource) toNumber messageText = Continue matches"
    and h: "fetchHistoryRows env fromNumber w = Inr historyRows"
    and l: "chatCompletion env
               ([\<lparr>role = System,
                   content =
                     (if truthy (mapping_system_prompt first)
                      then string_of (mapping_system_prompt first)
                      else js ''You are a helpful ''
                           @ (if string_of dataSource = js ''shopify'' then js ''Shopify store''
                              else js ''WhatsApp'')
                           @ js '' assistant.'')
                     @ [0x000A, 0x000A] @ baseRules (string_of dataSource)
                     @ [0x000A, 0x000A] @ js ''CONTEXT:'' @ [0x000A]
                     @ (if joinWith [0x000A, 0x000A] (map chunk matches) \<noteq> []
                        then joinWith [0x000A, 0x000A] (map chunk matches)
                        else js ''No relevant context found in the documents.'')\<rparr>]
                @ lastTen (buildHistory historyRows)
                @ [\<lparr>role = User, content = messageText\<rparr>])
             = Inr (choice # choices)"
    and t: "truthy choice"
  have p: "composeMessages (composeSystemPrompt (mapping_system_prompt first) (string_of dataSource))
             matches (buildHistory historyRows) messageText =
           [\<lparr>role = System,
                   content =
                     (if truthy (mapping_system_prompt first)
                      then string_of (mapping_system_prompt first)
                      else js ''You are a helpful ''
                           @ (if string_of dataSource = js ''shopify'' then js ''Shopify store''
                              else js ''WhatsApp'')
                           @ js '' assistant.'')
                     @ [0x000A, 0x000A] @ baseRules (string_of dataSource)
                     @ [0x000A, 0x000A] @ js ''CONTEXT:'' @ [0x000A]
                     @ (if joinWith [0x000A, 0x000A] (map chunk matches) \<noteq> []
                        then joinWith [0x000A, 0x000A] (map chunk matches)
                        else js ''No relevant context found in the documents.'')\<rparr>]
                @ lastTen (buildHistory historyRows)
                @ [\<lparr>role = User, content = messageText\<rparr>]"
    by (simp add: composeMessages_def composeSystemPrompt_def Let_def)
  have g: "generateReply env fromNumber toNumber messageText w =
      Continue (string_of choice, string_of (mapping_auth_token first), string_of (mapping_origin first))"
    by (simp add: generateReply_def resolveTenant_first_row [OF a] c m h l [folded p] t)
  show "generateAutoResponse env fromNumber toNumber messageText messageId w =
             (case sendWhatsAppMessage env fromNumber (string_of choice)
                     (string_of (mapping_auth_token first)) (string_of (mapping_origin first)) of
                Inl e \<Rightarrow>
                  (Inr \<lparr>success = False, response = None,
                        result_error = Some (if is_Error e then err_message e else js ''Unknown error''),
                        noDocuments = None, sent = None\<rparr>, w)
              | Inr sendResult \<Rightarrow>
                  (case (if send_success sendResult
                         then persistResponse env fromNumber toNumber messageId (string_of choice) w
                         else (case markResponse env messageId False (clock env 0) w of
                                 (Inl e, w') \<Rightarrow> (Inl e, w')
                               | (Inr u, w') \<Rightarrow>
                                   (Inr \<lparr>success = False, response = Some (string_of choice),
                                         result_error =
                                           Some (js ''Generated response but failed to send: ''
                                                 @ (case send_error sendResult of
                                                      None \<Rightarrow> js ''undefined'' | Some msg \<Rightarrow> msg)),
                                         noDocuments = None, sent = Some False\<rparr>, w'))) of
                     (Inl e, w') \<Rightarrow>
                       (Inr \<lparr>success = False, response = None,
                             result_error = Some (if is_Error e then err_message e else js ''Unknown error''),
                             noDocuments = None, sent = None\<rparr>, w')
                   | (Inr r, w') \<Rightarrow> (Inr r, w')))"
    by (simp add: generateAutoResponse_def generateAutoResponse_try_def g sendAndPersist_def
        split: sum.splits prod.splits)
qed

lemma digit_unat: "d < 10 \<Longrightarrow> unat (of_nat (48 + d) :: code_unit) - 48 = d"
proof -
  assume "d < 10"
  then have "(48 + d) mod 2 ^ LENGTH(16) = 48 + d" by simp
  then have "unat (of_nat (48 + d) :: code_unit) = 48 + d"
    by (simp only: unat_of_nat)
  then show ?thesis by (simp only: add_diff_cancel_left')
qed

lemma digits_value_show_nat: "digits_value (show_nat n) = n"
proof (induction n rule: show_nat.induct)
  case (1 n)
  show ?case
  proof (cases "n < 10")
    case True
    then show ?thesis
      using digit_unat [of n] by (subst show_nat.simps) (simp add: digits_value_def del: of_nat_add)
  next
    case False
    have d: "n mod 10 < 10" by simp
    from 1 [OF False] have ih: "foldl (\<lambda>a d. 10 * a + (unat d - 48)) 0 (show_nat (n div 10)) = n div 10"
      by (simp add: digits_value_def)
    have "digits_value (show_nat n) = 10 * (n div 10) + n mod 10"
      using False digit_unat [OF d]
      by (subst show_nat.simps) (simp add: digits_value_def ih del: of_nat_add)
    then show ?thesis by simp
  qed
qed

lemma show_nat_inject: "show_nat a = show_nat b \<longleftrightarrow> a = b"
  by (metis digits_value_show_nat)

lemma responseMessageId_inject:
  "responseMessageId messageId t1 = responseMessageId messageId t2 \<longleftrightarrow> t1 = t2"
  by (simp add: responseMessageId_def show_nat_inject)

lemma markResponse_carried_out:
  "messagesUpdate env messageId (messages w) = Inr updateReply \<Longrightarrow>
   markResponse env messageId flag now w =
     (Inr (), case updateReply of
                None \<Rightarrow> w\<lparr>messages := map (markRow messageId flag now) (messages w)\<rparr>
              | Some err \<Rightarrow> w)"
  by (cases updateReply) (simp_all add: markResponse_def markRow_def [abs_def])

text \<open>
  Claim C7. A reply has been generated, the send call returns \<open>success = False\<close>, and the
  store call that records the attempt returns. Then the result has \<open>success = False\<close>,
  \<open>sent = False\<close> and the generated text as \<open>response\<close>; the inbound row is set to
  \<open>auto_respond_sent = False\<close> with the time of the attempt (when the store carries the
  update out); no row is added, and no row is marked as responded.
\<close>

theorem send_failure_recorded:
  assumes "generateReply env fromNumber toNumber messageText w = Continue (reply, auth_token, origin)"
    and "sendWhatsAppMessage env fromNumber reply auth_token origin = Inr sendResult"
    and "\<not> send_success sendResult"
    and "messagesUpdate env messageId (messages w) = Inr updateReply"
  shows "\<exists>r w'. generateAutoResponse env fromNumber toNumber messageText messageId w = (Inr r, w')
     \<and> success r = False \<and> sent r = Some False \<and> response r = Some reply
     \<and> messages w' = (case updateReply of
                         None \<Rightarrow> map (markRow messageId False (clock env 0)) (messages w)
                       | Some err \<Rightarrow> messages w)
     \<and> length (messages w') = length (messages w)
     \<and> list_all (\<lambda>m. m \<in> set (messages w) \<or> auto_respond_sent m = Some False) (messages w')"
proof -
  let ?w' = "case updateReply of
                None \<Rightarrow> w\<lparr>messages := map (markRow messageId False (clock env 0)) (messages w)\<rparr>
              | Some err \<Rightarrow> w"
  let ?r = "\<lparr>success = False, response = Some reply,
             result_error = Some (js ''Generated response but failed to send: ''
                                  @ (case send_error sendResult of
                                       None \<Rightarrow> js ''undefined'' | Some msg \<Rightarrow> msg)),
             noDocuments = None, sent = Some False\<rparr>"
  have run: "generateAutoResponse env fromNumber toNumber messageText messageId w = (Inr ?r, ?w')"
    using assms(1,2,3)
    by (simp add: generateAutoResponse_def generateAutoResponse_try_def sendAndPersist_def
        markResponse_carried_out [OF assms(4)])
  have m: "messages ?w' = (case updateReply of
                         None \<Rightarrow> map (markRow messageId False (clock env 0)) (messages w)
                       | Some err \<Rightarrow> messages w)"
    by (cases updateReply) simp_all
  have l: "length (messages ?w') = length (messages w)"
    by (cases updateReply) simp_all
  have a: "list_all (\<lambda>m. m \<in> set (messages w) \<or> auto_respond_sent m = Some False) (messages ?w')"
    by (cases updateReply) (auto simp: list_all_iff markRow_def)
  from run m l a show ?thesis by auto
qed

text \<open>
  Claim C9, as amended. The id of the outbound turn is made of the inbound message id and
  of the clock reading, so two invocations for the same inbound message get the same id
  exactly when their clock readings are the same; and each invocation whose writes the
  store carries out adds one outbound turn and sets the mark and the time of the
  inbound row anew.
\<close>

theorem persistResponse_adds_outbound_turn:
  "(responseMessageId messageId t1 = responseMessageId messageId t2 \<longleftrightarrow> t1 = t2)
   \<and> (messagesInsert env
         (outboundTurn (responseMessageId messageId (clock env 0)) fromNumber toNumber reply (clock env 1))
         (messages w) = Inr None
       \<and> messagesUpdate env messageId
         (messages w @ [outboundTurn (responseMessageId messageId (clock env 0)) fromNumber toNumber
                          reply (clock env 1)]) = Inr None
       \<longrightarrow> persistResponse env fromNumber toNumber messageId reply w =
             (Inr \<lparr>success = True, response = Some reply, result_error = None,
                   noDocuments = None, sent = Some True\<rparr>,
              w\<lparr>messages := map (markRow messageId True (clock env 2))
                   (messages w @ [outboundTurn (responseMessageId messageId (clock env 0))
                                     fromNumber toNumber reply (clock env 1)])\<rparr>))"
proof (intro conjI impI)
  show "responseMessageId messageId t1 = responseMessageId messageId t2 \<longleftrightarrow> t1 = t2"
    by (rule responseMessageId_inject)
next
  let ?row = "outboundTurn (responseMessageId messageId (clock env 0)) fromNumber toNumber reply (clock env 1)"
  assume a: "messagesInsert env ?row (messages w) = Inr None
       \<and> messagesUpdate env messageId (messages w @ [?row]) = Inr None"
  then have u: "messagesUpdate env messageId (messages (w\<lparr>messages := messages w @ [?row]\<rparr>)) = Inr None"
    by simp
  show "persistResponse env fromNumber toNumber messageId reply w =
             (Inr \<lparr>success = True, response = Some reply, result_error = None,
                   noDocuments = None, sent = Some True\<rparr>,
              w\<lparr>messages := map (markRow messageId True (clock env 2)) (messages w @ [?row])\<rparr>)"
  proof -
    have i: "insertMessage env ?row w = (Inr (), w\<lparr>messages := messages w @ [?row]\<rparr>)"
      using a by (simp add: insertMessage_def)
    have m: "markResponse env messageId True (clock env 2) (w\<lparr>messages := messages w @ [?row]\<rparr>) =
        (Inr (), w\<lparr>messages := map (markRow messageId True (clock env 2)) (messages w @ [?row])\<rparr>)"
      using markResponse_carried_out [OF u, of True "clock env 2"] by simp
    show ?thesis
      by (simp only: persistResponse_def i m prod.case sum.case)
  qed
qed

lemma example_strings:
  "js ''files'' \<noteq> []" "js ''files'' \<noteq> js ''shopify''" "js ''tok1'' \<noteq> []"
  "js ''https://a.example'' \<noteq> []" "js ''We open at 9.'' \<noteq> []"
  by (simp_all add: js_def)

lemma helpDesk_like:
  assumes "getDataSourceForPhone env = (\<lambda>n. Inr (Some (js ''files'')))"
    and "phoneMappingQuery env = (\<lambda>n i. Inr \<lparr>data = Some [firstMapping, secondMapping], error = None\<rparr>)"
  shows "resolveTenant env toNumber =
      Continue (js ''files'', Some (js ''Be brief.''), js ''tok1'', js ''https://a.example'')"
  by (simp add: resolveTenant_def assms retrySupabaseQuery_def retry_loop.simps truthy_def
      string_of_def example_strings firstMapping_def Let_def)

lemma helpDesk_like_reply:
  assumes "getDataSourceForPhone env = (\<lambda>n. Inr (Some (js ''files'')))"
    and "phoneMappingQuery env = (\<lambda>n i. Inr \<lparr>data = Some [firstMapping, secondMapping], error = None\<rparr>)"
    and "embedText env = (\<lambda>t. Inr (Some [1]))"
    and "getFilesForPhoneNumber env = (\<lambda>n. Inr [js ''f1''])"
    and "match_documents env = (\<lambda>q f k. Inr \<lparr>data = Some [manualChunk], error = None\<rparr>)"
    and "messagesSelect env = (\<lambda>n t. Inr None)"
    and "chatCompletion env = (\<lambda>ms. Inr [Some (js ''We open at 9.'')])"
  shows "generateReply env fromNumber toNumber messageText w =
      Continue (js ''We open at 9.'', js ''tok1'', js ''https://a.example'')"
proof -
  have m: "retrieveMatches env (js ''files'') toNumber messageText = Continue [manualChunk]"
    by (simp add: retrieveMatches_def assms example_strings retrieveRelevantChunksFromFiles_def
        retrieveRelevantChunks_def)
  have h: "fetchHistoryRows env fromNumber w = Inr (Some (selectHistory fromNumber (messages w)))"
    by (simp add: fetchHistoryRows_def assms)
  show ?thesis
    by (simp add: generateReply_def helpDesk_like [OF assms(1,2)] m h assms(7) truthy_def
        string_of_def example_strings)
qed

lemma sendDown_reply:
  "generateReply sendDown fromNumber toNumber messageText w =
      Continue (js ''We open at 9.'', js ''tok1'', js ''https://a.example'')"
  by (rule helpDesk_like_reply) (simp_all add: sendDown_def helpDesk_def quietCollaborators_def)

theorem send_failure_recorded_witness:
  "\<exists>w'. generateAutoResponse sendDown customer business (js ''When do you open?'')
            (js ''m'' @ show_nat 1) inbox =
      (Inr \<lparr>success = False, response = Some (js ''We open at 9.''),
             result_error = Some (js ''Generated response but failed to send: '' @ js ''401''),
             noDocuments = None, sent = Some False\<rparr>, w')
     \<and> messages w' = [(inboundTurn 1)\<lparr>auto_respond_sent := Some False, response_sent_at := Some 1000\<rparr>]"
proof -
  have s: "sendWhatsAppMessage sendDown customer (js ''We open at 9.'') (js ''tok1'')
             (js ''https://a.example'') = Inr \<lparr>send_success = False, send_error = Some (js ''401'')\<rparr>"
    by (simp add: sendDown_def)
  have f: "\<not> send_success \<lparr>send_success = False, send_error = Some (js ''401'')\<rparr>"
    by simp
  have u: "messagesUpdate sendDown (js ''m'' @ show_nat 1) (messages inbox) = Inr None"
    by (simp add: sendDown_def helpDesk_def quietCollaborators_def)
  have c: "clock sendDown 0 = 1000"
    by (simp add: sendDown_def helpDesk_def quietCollaborators_def)
  from send_failure_recorded [OF sendDown_reply s f u, of business "js ''When do you open?''"]
  obtain r w' where
    run: "generateAutoResponse sendDown customer business (js ''When do you open?'')
            (js ''m'' @ show_nat 1) inbox = (Inr r, w')"
    and w': "messages w' = map (markRow (js ''m'' @ show_nat 1) False (clock sendDown 0)) (messages inbox)"
    by auto
  have r: "r = \<lparr>success = False, response = Some (js ''We open at 9.''),
             result_error = Some (js ''Generated response but failed to send: '' @ js ''401''),
             noDocuments = None, sent = Some False\<rparr>"
    using run
    by (simp add: generateAutoResponse_def generateAutoResponse_try_def sendDown_reply
        sendAndPersist_def s markResponse_def u del: One_nat_def)
  have m: "messages w' = [(inboundTurn 1)\<lparr>auto_respond_sent := Some False, response_sent_at := Some 1000\<rparr>]"
    unfolding w' c by (simp add: inbox_def markRow_def inboundTurn_def)
  from run r m show ?thesis by blast
qed

lemma embedderDown_try:
  "generateAutoResponse_try embedderDown customer business (js ''When do you open?'')
     (js ''m'' @ show_nat 1) inbox = (Inl (new_Error (js ''rate limited'')), inbox)"
proof -
  have t: "resolveTenant embedderDown business =
      Continue (js ''files'', Some (js ''Be brief.''), js ''tok1'', js ''https://a.example'')"
    by (rule helpDesk_like) (simp_all add: embedderDown_def helpDesk_def quietCollaborators_def)
  have m: "retrieveMatches embedderDown (js ''files'') business (js ''When do you open?'') =
      Throw (new_Error (js ''rate limited''))"
    by (simp add: retrieveMatches_def embedderDown_def)
  show ?thesis
    by (simp add: generateAutoResponse_try_def generateReply_def t m)
qed

theorem generateAutoResponse_never_rejects_witness:
  "fst (generateAutoResponse embedderDown customer business (js ''When do you open?'')
          (js ''m'' @ show_nat 1) inbox) =
     Inr \<lparr>success = False, response = None, result_error = Some (js ''rate limited''),
          noDocuments = None, sent = None\<rparr>"
proof -
  from generateAutoResponse_never_rejects
    [of embedderDown customer business "js ''When do you open?''" "js ''m'' @ show_nat 1" inbox]
  obtain r where
    a: "fst (generateAutoResponse embedderDown customer business (js ''When do you open?'')
          (js ''m'' @ show_nat 1) inbox) = Inr r"
    and c: "success r \<or> result_error r \<noteq> None"
    and b: "\<forall>e. fst (generateAutoResponse_try embedderDown customer business (js ''When do you open?'')
          (js ''m'' @ show_nat 1) inbox) = Inl e \<longrightarrow>
          r = \<lparr>success = False, response = None,
               result_error = Some (if is_Error e then err_message e else js ''Unknown error''),
               noDocuments = None, sent = None\<rparr>"
    by blast
  from b embedderDown_try have "r = \<lparr>success = False, response = None,
       result_error = Some (js ''rate limited''), noDocuments = None, sent = None\<rparr>"
    by (simp add: new_Error_def)
  with a show ?thesis by simp
qed

lemma deskAt_reply:
  "generateReply (deskAt t) fromNumber toNumber messageText w =
      Continue (js ''We open at 9.'', js ''tok1'', js ''https://a.example'')"
  by (rule helpDesk_like_reply) (simp_all add: deskAt_def helpDesk_def quietCollaborators_def)

lemma deskAt_fields:
  "clock (deskAt t) k = t + k"
  "messagesUpdate (deskAt t) i table = Inr None"
  "sendWhatsAppMessage (deskAt t) a b c d = Inr \<lparr>send_success = True, send_error = None\<rparr>"
  "messagesInsert (deskAt t) row table =
     (if message_id row \<in> set (map message_id table) then Inr (Some duplicateKey) else Inr None)"
  by (simp_all add: deskAt_def helpDesk_def quietCollaborators_def)

lemma example_ids:
  "js ''m'' @ show_nat 1 = js ''m1''"
  "js ''m'' @ show_nat (Suc 0) = js ''m1''"
  "responseMessageId (js ''m1'') 1000 = js ''auto_m1_1000''"
  "responseMessageId (js ''m1'') 2000 = js ''auto_m1_2000''"
  "js ''auto_m1_1000'' \<noteq> js ''m1''" "js ''auto_m1_2000'' \<noteq> js ''m1''"
  "js ''auto_m1_2000'' \<noteq> js ''auto_m1_1000''"
  "js ''MoMessage'' \<noteq> js ''MtMessage''"
  by (simp_all add: js_def show_nat.simps responseMessageId_def)

lemma deskAt_first_run:
  "generateAutoResponse (deskAt 1000) customer business (js ''When do you open?'') (js ''m1'') inbox =
     (Inr \<lparr>success = True, response = Some (js ''We open at 9.''), result_error = None,
           noDocuments = None, sent = Some True\<rparr>,
      \<lparr>messages = [(inboundTurn 1)\<lparr>auto_respond_sent := Some True, response_sent_at := Some 1002\<rparr>,
                   firstAnswer]\<rparr>)"
  by (simp add: generateAutoResponse_def generateAutoResponse_try_def deskAt_reply sendAndPersist_def
      deskAt_fields persistResponse_def insertMessage_def markResponse_def example_ids inbox_def
      inboundTurn_def outboundTurn_def firstAnswer_def)

lemma deskAt_second_run:
  "generateAutoResponse (deskAt 2000) customer business (js ''When do you open?'') (js ''m1'')
     \<lparr>messages = [(inboundTurn 1)\<lparr>auto_respond_sent := Some True, response_sent_at := Some 1002\<rparr>,
                  firstAnswer]\<rparr> =
     (Inr \<lparr>success = True, response = Some (js ''We open at 9.''), result_error = None,
           noDocuments = None, sent = Some True\<rparr>,
      \<lparr>messages = [(inboundTurn 1)\<lparr>auto_respond_sent := Some True, response_sent_at := Some 2002\<rparr>,
                   firstAnswer, secondAnswer]\<rparr>)"
  by (simp add: generateAutoResponse_def generateAutoResponse_try_def deskAt_reply sendAndPersist_def
      deskAt_fields persistResponse_def insertMessage_def markResponse_def example_ids
      inboundTurn_def outboundTurn_def firstAnswer_def secondAnswer_def)

text \<open>
  Claim C9 as stated fails: the same inbound message handled at clock readings 1000 and
  2000, against a store that refuses a second row with a message id it already holds,
  leaves two outbound turns, with different ids.
\<close>

theorem redelivery_adds_second_outbound_turn:
  "map message_id
     (filter (\<lambda>m. event_type m = js ''MtMessage'')
        (messages (snd (generateAutoResponse (deskAt 2000) customer business
                          (js ''When do you open?'') (js ''m1'')
                          (snd (generateAutoResponse (deskAt 1000) customer business
                                  (js ''When do you open?'') (js ''m1'') inbox)))))) =
     [js ''auto_m1_1000'', js ''auto_m1_2000'']"
proof -
  have "messages (snd (generateAutoResponse (deskAt 2000) customer business
                          (js ''When do you open?'') (js ''m1'')
                          (snd (generateAutoResponse (deskAt 1000) customer business
                                  (js ''When do you open?'') (js ''m1'') inbox)))) =
        [(inboundTurn 1)\<lparr>auto_respond_sent := Some True, response_sent_at := Some 2002\<rparr>,
         firstAnswer, secondAnswer]"
    by (simp only: deskAt_first_run snd_conv deskAt_second_run orch_world.simps)
  then show ?thesis
    by (simp add: firstAnswer_def secondAnswer_def outboundTurn_def inboundTurn_def example_ids)
qed

theorem persistResponse_adds_outbound_turn_witness:
  "responseMessageId (js ''m1'') 1000 \<noteq> responseMessageId (js ''m1'') 2000
   \<and> persistResponse (deskAt 1000) customer business (js ''m1'') (js ''We open at 9.'') inbox =
       (Inr \<lparr>success = True, response = Some (js ''We open at 9.''), result_error = None,
             noDocuments = None, sent = Some True\<rparr>,
        \<lparr>messages = [(inboundTurn 1)\<lparr>auto_respond_sent := Some True, response_sent_at := Some 1002\<rparr>,
                     firstAnswer]\<rparr>)"
proof -
  note t = persistResponse_adds_outbound_turn
    [of "js ''m1''" 1000 2000 "deskAt 1000" customer business "js ''We open at 9.''" inbox]
  have i: "messagesInsert (deskAt 1000)
         (outboundTurn (responseMessageId (js ''m1'') (clock (deskAt 1000) 0)) customer business
            (js ''We open at 9.'') (clock (deskAt 1000) 1))
         (messages inbox) = Inr None"
    by (simp add: deskAt_fields example_ids inbox_def inboundTurn_def outboundTurn_def)
  have u: "messagesUpdate (deskAt 1000) (js ''m1'')
         (messages inbox @ [outboundTurn (responseMessageId (js ''m1'') (clock (deskAt 1000) 0))
                              customer business (js ''We open at 9.'') (clock (deskAt 1000) 1)]) = Inr None"
    by (simp add: deskAt_fields)
  from t have a: "responseMessageId (js ''m1'') 1000 \<noteq> responseMessageId (js ''m1'') 2000"
    by simp
  from t i u have "persistResponse (deskAt 1000) customer business (js ''m1'') (js ''We open at 9.'') inbox =
       (Inr \<lparr>success = True, response = Some (js ''We open at 9.''), result_error = None,
             noDocuments = None, sent = Some True\<rparr>,
        inbox\<lparr>messages := map (markRow (js ''m1'') True (clock (deskAt 1000) 2))
                   (messages inbox @ [outboundTurn (responseMessageId (js ''m1'') (clock (deskAt 1000) 0))
                                     customer business (js ''We open at 9.'') (clock (deskAt 1000) 1)])\<rparr>)"
    by blast
  then have b: "persistResponse (deskAt 1000) customer business (js ''m1'') (js ''We open at 9.'') inbox =
       (Inr \<lparr>success = True, response = Some (js ''We open at 9.''), result_error = None,
             noDocuments = None, sent = Some True\<rparr>,
        \<lparr>messages = [(inboundTurn 1)\<lparr>auto_respond_sent := Some True, response_sent_at := Some 1002\<rparr>,
                     firstAnswer]\<rparr>)"
    by (simp add: deskAt_fields example_ids inbox_def markRow_def inboundTurn_def outboundTurn_def
        firstAnswer_def)
  from a b show ?thesis by simp
qed

text \<open>
  After the system message, the language model is handed the last ten entries of the
  history and then the new message. That history is the last ten of the qualifying
  rows of the window the select returned, at most ten of them, in the order of their
  receipt.
\<close>

lemma composeMessages_history:
  "tl (composeMessages systemPrompt matches history messageText) =
     lastTen history @ [\<lparr>role = User, content = messageText\<rparr>]"
  by (simp add: composeMessages_def Let_def)

lemma lastTen_length: "length (lastTen xs) \<le> 10"
  by (simp add: lastTen_def)

lemma lastTen_map: "lastTen (map f xs) = map f (lastTen xs)"
  by (simp add: lastTen_def drop_map)

lemma prompt_history_rows:
  "lastTen (buildHistory historyRows) =
     map toHistoryEntry (lastTen (filter qualifies (historyRowsOrEmpty historyRows)))"
  by (simp add: buildHistory_def lastTen_map)

lemma selectHistory_sorted: "sorted (map received_at (selectHistory fromNumber table))"
proof -
  have "sorted (map received_at (sort_key received_at (filter (involves fromNumber) table)))"
    by simp
  then have "sorted (take 20 (map received_at (sort_key received_at (filter (involves fromNumber) table))))"
    by (rule sorted_wrt_take)
  then show ?thesis by (simp add: selectHistory_def take_map)
qed

lemma selectHistory_length: "length (selectHistory fromNumber table) \<le> 20"
  by (simp add: selectHistory_def)

lemma prompt_history_chronological:
  "sorted (map received_at (lastTen (filter qualifies (selectHistory fromNumber table))))"
proof -
  have "sorted (map received_at (filter qualifies (selectHistory fromNumber table)))"
    using selectHistory_sorted [of fromNumber table] by (simp add: sorted_wrt_map sorted_wrt_filter)
  then have "sorted (drop (length (filter qualifies (selectHistory fromNumber table)) - 10)
      (map received_at (filter qualifies (selectHistory fromNumber table))))"
    by (rule sorted_wrt_drop)
  then show ?thesis by (simp add: lastTen_def drop_map)
qed

lemma inboundTurn_facts:
  "involves customer (inboundTurn i)" "qualifies (inboundTurn i)" "received_at (inboundTurn i) = i"
  "toHistoryEntry (inboundTurn i) = \<lparr>role = User, content = js ''question '' @ show_nat i\<rparr>"
  by (simp_all add: involves_def qualifies_def inboundTurn_def truthy_def toHistoryEntry_def
      string_of_def js_def)

lemma selectHistory_long_conversation:
  "selectHistory customer (map inboundTurn [1..<22]) = map inboundTurn [1..<21]"
proof -
  have f: "filter (involves customer) (map inboundTurn [1..<22]) = map inboundTurn [1..<22]"
    by (simp add: filter_map comp_def inboundTurn_facts)
  have "map received_at (map inboundTurn [1..<22]) = [1..<22]"
    by (simp add: comp_def inboundTurn_facts)
  then have "sorted (map received_at (map inboundTurn [1..<22]))"
    by (simp only: sorted_upt)
  then have s: "sort_key received_at (map inboundTurn [1..<22]) = map inboundTurn [1..<22]"
    by (rule sort_key_id_if_sorted)
  have t: "take 20 [1..<22] = [1..<21]"
    by (simp add: take_upt)
  show ?thesis
    unfolding selectHistory_def f s take_map t by (rule refl)
qed

text \<open>
  Claim C2. With 21 stored turns of the customer, received at times 1 to 21, the
  history that goes into the prompt is turns 11 to 20: the select orders ascending and
  is limited to 20 rows, so it reads the 20 earliest turns, and the newest turn is not
  among them.
\<close>

theorem newest_turns_never_reach_prompt:
  "lastTen (buildHistory (Some (selectHistory customer (map inboundTurn [1..<22])))) =
     map (\<lambda>i. \<lparr>role = User, content = js ''question '' @ show_nat i\<rparr>) [11..<21]"
proof -
  have q: "filter qualifies (map inboundTurn [1..<21]) = map inboundTurn [1..<21]"
    by (simp add: filter_map comp_def inboundTurn_facts)
  have d: "drop 10 [1..<21] = [11..<21]"
    by (simp add: drop_upt)
  have n: "length (map inboundTurn [1..<21]) - 10 = 10"
    by simp
  have l: "lastTen (map inboundTurn [1..<21]) = map inboundTurn [11..<21]"
    unfolding lastTen_def n drop_map d by (rule refl)
  show ?thesis
    unfolding prompt_history_rows historyRowsOrEmpty_def option.case
      selectHistory_long_conversation q l map_map comp_def inboundTurn_facts(4)
    by (rule refl)
qed

lemma brief_prefix: "take 9 (js ''Be brief.'' @ rest) = js ''Be brief.''"
  by (simp add: js_def)

lemma verbose_prefix: "take 9 (js ''Be verbose.'' @ rest) \<noteq> js ''Be brief.''"
  by (simp add: js_def)

lemma frontDesk_fields:
  "getDataSourceForPhone frontDesk n = Inr (Some (js ''files''))"
  "phoneMappingQuery frontDesk n i = Inr \<lparr>data = Some [firstMapping, secondMapping], error = None\<rparr>"
  "clock frontDesk k = 1000 + k"
  "messagesUpdate frontDesk i' table = Inr None"
  "messagesInsert frontDesk row table = Inr None"
  "messagesSelect frontDesk n table = Inr None"
  "chatCompletion frontDesk (m # rest) =
     (if take 9 (content m) = js ''Be brief.'' then Inr [Some (js ''We open at 9.'')]
      else Inr [Some (js ''Our opening hours are on the website.'')])"
  "sendWhatsAppMessage frontDesk recipient t token origin =
     (if token = js ''tok1'' \<and> origin = js ''https://a.example''
      then Inr \<lparr>send_success = True, send_error = None\<rparr>
      else Inr \<lparr>send_success = False, send_error = Some (js ''401'')\<rparr>)"
  by (simp_all add: frontDesk_def helpDesk_def quietCollaborators_def)

lemma frontDesk_lookup:
  "returned (retrySupabaseQuery (phoneMappingQuery frontDesk business) 3) =
     Inr \<lparr>data = Some [firstMapping, secondMapping], error = None\<rparr>"
  by (simp add: retrySupabaseQuery_def retry_loop.simps frontDesk_fields)

lemma frontDesk_matches:
  "retrieveMatches frontDesk (js ''files'') business messageText = Continue [manualChunk]"
  by (simp add: retrieveMatches_def frontDesk_def helpDesk_def quietCollaborators_def
      example_strings retrieveRelevantChunksFromFiles_def retrieveRelevantChunks_def)

lemma frontDesk_history:
  "fetchHistoryRows frontDesk customer inbox = Inr (Some (selectHistory customer (messages inbox)))"
  by (simp add: fetchHistoryRows_def frontDesk_fields)

lemma frontDesk_persist:
  "persistResponse frontDesk customer business (js ''m1'') (js ''We open at 9.'') inbox =
     (Inr \<lparr>success = True, response = Some (js ''We open at 9.''), result_error = None,
           noDocuments = None, sent = Some True\<rparr>,
      \<lparr>messages = [(inboundTurn 1)\<lparr>auto_respond_sent := Some True, response_sent_at := Some 1002\<rparr>,
                   firstAnswer]\<rparr>)"
  by (simp add: persistResponse_def insertMessage_def markResponse_def frontDesk_fields example_ids
      inbox_def inboundTurn_def outboundTurn_def firstAnswer_def)

theorem only_first_mapping_row_matters_witness:
  "generateAutoResponse (withLaterRows (\<lambda>others. [thirdMapping, thirdMapping]) frontDesk)
       customer business (js ''When do you open?'') (js ''m1'') inbox =
     generateAutoResponse frontDesk customer business (js ''When do you open?'') (js ''m1'') inbox
   \<and> generateAutoResponse frontDesk customer business (js ''When do you open?'') (js ''m1'') inbox =
       (Inr \<lparr>success = True, response = Some (js ''We open at 9.''), result_error = None,
             noDocuments = None, sent = Some True\<rparr>,
        \<lparr>messages = [(inboundTurn 1)\<lparr>auto_respond_sent := Some True, response_sent_at := Some 1002\<rparr>,
                     firstAnswer]\<rparr>)"
proof -
  note t = only_first_mapping_row_matters
    [where f = "\<lambda>others. [thirdMapping, thirdMapping]" and env = frontDesk
       and fromNumber = customer and toNumber = business
       and messageText = "js ''When do you open?''" and messageId = "js ''m1''" and w = inbox
       and dataSource = "Some (js ''files'')"
       and reply = "\<lparr>data = Some [firstMapping, secondMapping], error = None\<rparr>"
       and first = firstMapping and others = "[secondMapping]"
       and matches = "[manualChunk]"
       and historyRows = "Some (selectHistory customer (messages inbox))"
       and choice = "Some (js ''We open at 9.'')" and choices = "[]"]
  have s: "string_of (Some (js ''files'')) = js ''files''"
    "string_of (Some (js ''We open at 9.'')) = js ''We open at 9.''"
    "string_of (mapping_auth_token firstMapping) = js ''tok1''"
    "string_of (mapping_origin firstMapping) = js ''https://a.example''"
    "string_of (mapping_system_prompt firstMapping) = js ''Be brief.''"
    by (simp_all add: string_of_def firstMapping_def)
  have y: "truthy (Some (js ''files''))" "truthy (Some (js ''We open at 9.''))"
    "truthy (mapping_auth_token firstMapping)" "truthy (mapping_origin firstMapping)"
    "truthy (mapping_system_prompt firstMapping)"
    by (simp_all add: truthy_def firstMapping_def js_def)
  have l: "chatCompletion frontDesk
             ([\<lparr>role = System,
                 content = js ''Be brief.'' @ rest\<rparr>] @ more) = Inr [Some (js ''We open at 9.'')]" for rest more
    by (simp add: frontDesk_fields brief_prefix del: take_append)
  have send: "sendWhatsAppMessage frontDesk customer (js ''We open at 9.'') (js ''tok1'')
       (js ''https://a.example'') = Inr \<lparr>send_success = True, send_error = None\<rparr>"
    by (simp add: frontDesk_fields)
  from t have a: "generateAutoResponse (withLaterRows (\<lambda>others. [thirdMapping, thirdMapping]) frontDesk)
       customer business (js ''When do you open?'') (js ''m1'') inbox =
     generateAutoResponse frontDesk customer business (js ''When do you open?'') (js ''m1'') inbox"
    by (rule conjunct1)
  have b: "generateAutoResponse frontDesk customer business (js ''When do you open?'') (js ''m1'') inbox =
       (Inr \<lparr>success = True, response = Some (js ''We open at 9.''), result_error = None,
             noDocuments = None, sent = Some True\<rparr>,
        \<lparr>messages = [(inboundTurn 1)\<lparr>auto_respond_sent := Some True, response_sent_at := Some 1002\<rparr>,
                     firstAnswer]\<rparr>)"
    using t
    unfolding s
    by (simp only: frontDesk_fields frontDesk_lookup frontDesk_matches frontDesk_history y l send
        frontDesk_persist query_result.simps simp_thms if_True if_False sum.case prod.case
        send_result.simps append_assoc)
  from a b show ?thesis by (rule conjI)
qed

lemma backOffice_fields:
  "getDataSourceForPhone backOffice n = Inr (Some (js ''files''))"
  "phoneMappingQuery backOffice n i = Inr \<lparr>data = Some [secondMapping, firstMapping], error = None\<rparr>"
  "clock backOffice k = 1000 + k"
  "messagesUpdate backOffice i' table = Inr None"
  "messagesSelect backOffice n table = Inr None"
  "chatCompletion backOffice = chatCompletion frontDesk"
  "sendWhatsAppMessage backOffice = sendWhatsAppMessage frontDesk"
  by (simp_all add: backOffice_def frontDesk_def helpDesk_def quietCollaborators_def)

lemma backOffice_tenant:
  "resolveTenant backOffice business =
     Continue (js ''files'', Some (js ''Be verbose.''), js ''tok2'', js ''https://b.example'')"
proof -
  have q: "returned (retrySupabaseQuery (phoneMappingQuery backOffice business) 3) =
      Inr \<lparr>data = Some [secondMapping, firstMapping], error = None\<rparr>"
    by (simp add: retrySupabaseQuery_def retry_loop.simps backOffice_fields)
  have y: "truthy (Some (js ''files''))"
    by (simp add: truthy_def js_def)
  show ?thesis
    using resolveTenant_first_row [OF backOffice_fields(1) y q]
    by (simp add: truthy_def string_of_def secondMapping_def js_def)
qed

lemma backOffice_matches:
  "retrieveMatches backOffice (js ''files'') business messageText = Continue [manualChunk]"
  by (simp add: retrieveMatches_def backOffice_def frontDesk_def helpDesk_def quietCollaborators_def
      example_strings retrieveRelevantChunksFromFiles_def retrieveRelevantChunks_def)

lemma backOffice_reply:
  "generateReply backOffice customer business (js ''When do you open?'') inbox =
     Continue (js ''Our opening hours are on the website.'', js ''tok2'', js ''https://b.example'')"
proof -
  have h: "fetchHistoryRows backOffice customer inbox =
      Inr (Some (selectHistory customer (messages inbox)))"
    by (simp add: fetchHistoryRows_def backOffice_fields)
  have p: "composeMessages (composeSystemPrompt (Some (js ''Be verbose.'')) (js ''files'')) matches
             history messageText =
           \<lparr>role = System,
             content = js ''Be verbose.'' @ [0x000A, 0x000A] @ baseRules (js ''files'')
                       @ [0x000A, 0x000A] @ js ''CONTEXT:'' @ [0x000A]
                       @ (if joinWith [0x000A, 0x000A] (map chunk matches) \<noteq> []
                          then joinWith [0x000A, 0x000A] (map chunk matches)
                          else js ''No relevant context found in the documents.'')\<rparr>
           # (lastTen history @ [\<lparr>role = User, content = messageText\<rparr>])"
    for matches history messageText
    by (simp add: composeMessages_def composeSystemPrompt_def Let_def truthy_def string_of_def js_def)
  have l: "chatCompletion frontDesk (\<lparr>role = System, content = js ''Be verbose.'' @ rest\<rparr> # more) =
      Inr [Some (js ''Our opening hours are on the website.'')]" for rest more
    by (simp add: frontDesk_fields verbose_prefix del: take_append)
  have y: "truthy (Some (js ''Our opening hours are on the website.''))"
    "string_of (Some (js ''Our opening hours are on the website.'')) =
       js ''Our opening hours are on the website.''"
    by (simp_all add: truthy_def string_of_def js_def)
  show ?thesis
    by (simp only: generateReply_def backOffice_tenant backOffice_matches h p l y
        backOffice_fields step.case prod.case sum.case list.case if_False simp_thms)
qed

text \<open>
  The same desk with its two mapping rows in the other order: the model is handed the
  other prompt and the sender the other credentials, and the run ends differently.
\<close>

lemma first_row_decides_prompt_and_credentials:
  "generateAutoResponse backOffice customer business (js ''When do you open?'') (js ''m1'') inbox =
     (Inr \<lparr>success = False, response = Some (js ''Our opening hours are on the website.''),
           result_error = Some (js ''Generated response but failed to send: '' @ js ''401''),
           noDocuments = None, sent = Some False\<rparr>,
      \<lparr>messages = [(inboundTurn 1)\<lparr>auto_respond_sent := Some False, response_sent_at := Some 1000\<rparr>]\<rparr>)"
proof -
  have s: "sendWhatsAppMessage backOffice customer (js ''Our opening hours are on the website.'')
       (js ''tok2'') (js ''https://b.example'') = Inr \<lparr>send_success = False, send_error = Some (js ''401'')\<rparr>"
    by (simp add: backOffice_fields frontDesk_fields js_def)
  have m: "markResponse backOffice (js ''m1'') False (clock backOffice 0) inbox =
      (Inr (), \<lparr>messages = [(inboundTurn 1)\<lparr>auto_respond_sent := Some False,
                                               response_sent_at := Some 1000\<rparr>]\<rparr>)"
    by (simp add: markResponse_def backOffice_fields inbox_def inboundTurn_def example_ids)
  show ?thesis
    by (simp add: generateAutoResponse_def generateAutoResponse_try_def backOffice_reply
        sendAndPersist_def s m del: One_nat_def)
qed

end
